theory Spec2Isabelle
  imports Complex_Main "HOL-Library.Word" "HOL-Library.AList"
begin

unbundle bit_operations_syntax

section \<open>The faup978 reporter: data model\<close>

text \<open>
  The development embeds \<^verbatim>\<open>src/faup978_reporter.cc\<close>: the purge of the report
  ledger (\<^verbatim>\<open>Reporter::PurgeOld\<close>), the periodic report, and the per-aircraft
  emission decision (\<^verbatim>\<open>Reporter::ReportOneAircraft\<close>).

  Timestamps are \<^verbatim>\<open>std::uint64_t\<close> milliseconds: 64-bit words, whose subtraction
  wraps. C++ \<^verbatim>\<open>int\<close> values (altitudes, rates, speeds) are modelled as unbounded
  integers, and \<^verbatim>\<open>double\<close> values as the real they denote (no NaN, no infinity).
\<close>

type_synonym u64 = "64 word"
type_synonym u32 = "32 word"

datatype error = InvalidFieldRead

subsection \<open>Enumerations\<close>

text \<open>
  Modelled from the spec: the header declaring \<^verbatim>\<open>AddressQualifier\<close> is not among
  the sources; the spec gives it as the closed set below.
\<close>

datatype AddressQualifier =
  ADSB_ICAO | ADSB_OTHER | ADSR_OTHER | TISB_ICAO | TISB_TRACKFILE | VEHICLE | FIXED_BEACON

text \<open>
  Modelled from the spec: the header declaring the next three enumerations is not among
  the sources; the constructors are the enumerators that the reporter names.
\<close>

datatype AirGroundState = AIRBORNE_SUBSONIC | AIRBORNE_SUPERSONIC | ON_GROUND | RESERVED

datatype SILSupplement = PER_HOUR | PER_SAMPLE

datatype EmergencyPriorityStatus = NONE | GENERAL | MEDICAL | MINFUEL | NORDO | UNLAWFUL | DOWNED

record ModeIndicators =
  autopilot :: bool
  vnav :: bool
  altitude_hold :: bool
  approach :: bool
  lnav :: bool

subsection \<open>Aged fields\<close>

text \<open>
  Modelled from the spec: the class template \<^verbatim>\<open>AgedField<T>\<close> is declared in a header
  that is not among the sources. The spec describes it as an optional value with two
  timestamps: \<^verbatim>\<open>Valid()\<close> holds once a value has been set, \<^verbatim>\<open>Value()\<close> has the
  precondition \<^verbatim>\<open>Valid()\<close> and reading an unset field is an error signalled to the
  caller, \<^verbatim>\<open>Updated()\<close> and \<^verbatim>\<open>Changed()\<close> are the two timestamps, and
  \<^verbatim>\<open>UpdateAge(now)\<close> is \<^verbatim>\<open>now - Updated()\<close>.
\<close>

record 'a AgedField =
  fvalue :: "'a option"
  fupdated :: u64
  fchanged :: u64

definition Valid :: "'a AgedField \<Rightarrow> bool" where
  "Valid f = (fvalue f \<noteq> None)"

definition Value :: "'a AgedField \<Rightarrow> error + 'a" where
  "Value f = (case fvalue f of None \<Rightarrow> Inl InvalidFieldRead | Some v \<Rightarrow> Inr v)"

definition Updated :: "'a AgedField \<Rightarrow> u64" where
  "Updated f = fupdated f"

definition Changed :: "'a AgedField \<Rightarrow> u64" where
  "Changed f = fchanged f"

definition UpdateAge :: "'a AgedField \<Rightarrow> u64 \<Rightarrow> u64" where
  "UpdateAge f now = now - Updated f"

text \<open>A field that has never been set.\<close>

definition unset :: "'a AgedField" where
  "unset = \<lparr>fvalue = None, fupdated = 0, fchanged = 0\<rparr>"

text \<open>A field holding \<open>v\<close>, last assigned at \<open>u\<close> and last changed at \<open>c\<close>.\<close>

definition aged :: "'a \<Rightarrow> u64 \<Rightarrow> u64 \<Rightarrow> 'a AgedField" where
  "aged v u c = \<lparr>fvalue = Some v, fupdated = u, fchanged = c\<rparr>"

text \<open>
  The invariant the spec states for a field (\<^verbatim>\<open>Changed() <= Updated()\<close>), together
  with the assumption that a field never assigned has both timestamps at zero, as
  \<open>unset\<close> has.
\<close>

definition field_ok :: "'a AgedField \<Rightarrow> bool" where
  "field_ok f = (Changed f \<le> Updated f \<and> (Valid f \<or> (Updated f = 0 \<and> Changed f = 0)))"

subsection \<open>Aircraft state, address keys, report records\<close>

text \<open>
  Modelled from the spec: \<^verbatim>\<open>AircraftState\<close> is declared in a header that is not among
  the sources. The record has the members that the reporter reads, with the value types
  that its uses of them show.
\<close>

record AircraftState =
  address_qualifier :: AddressQualifier
  address :: u32
  messages :: nat
  last_message_time :: u64
  pressure_altitude :: "int AgedField"
  geometric_altitude :: "int AgedField"
  vertical_velocity_barometric :: "int AgedField"
  vertical_velocity_geometric :: "int AgedField"
  ground_speed :: "int AgedField"
  true_track :: "real AgedField"
  true_heading :: "real AgedField"
  magnetic_heading :: "real AgedField"
  airground_state :: "AirGroundState AgedField"
  flightplan_id :: "string AgedField"
  callsign :: "string AgedField"
  emergency :: "EmergencyPriorityStatus AgedField"
  selected_altitude_mcp :: "int AgedField"
  selected_altitude_fms :: "int AgedField"
  selected_heading :: "real AgedField"
  mode_indicators :: "ModeIndicators AgedField"
  barometric_pressure_setting :: "real AgedField"
  position :: "(real \<times> real) AgedField"
  nic :: "u32 AgedField"
  horizontal_containment :: "real AgedField"
  mops_version :: "u32 AgedField"
  emitter_category :: "u32 AgedField"
  nac_p :: "u32 AgedField"
  nac_v :: "u32 AgedField"
  sil :: "u32 AgedField"
  sil_supplement :: "SILSupplement AgedField"
  nic_baro :: "u32 AgedField"

type_synonym AddressKey = "AddressQualifier \<times> u32"

record ReportRecord =
  report_time :: u64
  slow_report_time :: u64
  report_state :: AircraftState

text \<open>A default-constructed aircraft state: no field has been set.\<close>

definition empty_state :: AircraftState where
  "empty_state = \<lparr>
     address_qualifier = ADSB_ICAO, address = 0, messages = 0, last_message_time = 0,
     pressure_altitude = unset, geometric_altitude = unset,
     vertical_velocity_barometric = unset, vertical_velocity_geometric = unset,
     ground_speed = unset, true_track = unset, true_heading = unset,
     magnetic_heading = unset, airground_state = unset, flightplan_id = unset,
     callsign = unset, emergency = unset, selected_altitude_mcp = unset,
     selected_altitude_fms = unset, selected_heading = unset, mode_indicators = unset,
     barometric_pressure_setting = unset, position = unset, nic = unset,
     horizontal_containment = unset, mops_version = unset, emitter_category = unset,
     nac_p = unset, nac_v = unset, sil = unset, sil_supplement = unset, nic_baro = unset\<rparr>"

text \<open>
  The record that \<^verbatim>\<open>reported_[key]\<close> creates for a key the ledger does not hold:
  zeroed timestamps and a state with nothing set.
\<close>

definition new_record :: ReportRecord where
  "new_record = \<lparr>report_time = 0, slow_report_time = 0, report_state = empty_state\<rparr>"

text \<open>
  The ledger \<^verbatim>\<open>reported_\<close> is a \<^verbatim>\<open>std::map\<close> from address keys to report records,
  modelled as an association list; the Tracker's \<^verbatim>\<open>Aircraft()\<close> is a map from address
  keys to aircraft states, modelled the same way.
\<close>

type_synonym ledger = "(AddressKey \<times> ReportRecord) list"
type_synonym tracked = "(AddressKey \<times> AircraftState) list"

section \<open>Stream formatting\<close>

text \<open>
  What the reporter writes through \<^verbatim>\<open>operator<<\<close>: unsigned and signed decimals,
  upper-case hexadecimal padded with zeros to a width, and doubles in fixed notation with
  a number of decimals (rounded half to even at the last decimal).
\<close>

definition digit_char :: "nat \<Rightarrow> char" where
  "digit_char d = ''0123456789ABCDEF'' ! (d mod 16)"

function show_base :: "nat \<Rightarrow> nat \<Rightarrow> string" where
  "show_base b n =
     (if b < 2 \<or> n < b then [digit_char n] else show_base b (n div b) @ [digit_char (n mod b)])"
  by pat_completeness auto
termination
  by (relation "measure (\<lambda>(b, n). n)") auto

definition show_nat :: "nat \<Rightarrow> string" where
  "show_nat n = show_base 10 n"

definition show_int :: "int \<Rightarrow> string" where
  "show_int i = (if i < 0 then CHR ''-'' # show_nat (nat (- i)) else show_nat (nat i))"

definition pad_left :: "nat \<Rightarrow> char \<Rightarrow> string \<Rightarrow> string" where
  "pad_left w c s = replicate (w - length s) c @ s"

definition show_hex :: "nat \<Rightarrow> nat \<Rightarrow> string" where
  "show_hex w n = pad_left w CHR ''0'' (show_base 16 n)"

definition round_half_even :: "real \<Rightarrow> int" where
  "round_half_even x =
     (let f = \<lfloor>x\<rfloor>; d = x - of_int f
      in if d < 1 / 2 then f else if 1 / 2 < d then f + 1 else if even f then f else f + 1)"

definition show_fixed :: "nat \<Rightarrow> real \<Rightarrow> string" where
  "show_fixed p x =
     (let n = nat (round_half_even (\<bar>x\<bar> * 10 ^ p))
      in (if x < 0 then [CHR ''-''] else []) @ show_nat (n div 10 ^ p) @
         (if p = 0 then [] else CHR ''.'' # pad_left p CHR ''0'' (show_nat (n mod 10 ^ p))))"

text \<open>\<^verbatim>\<open>value_map\<close>: the string a table gives a value, or the default.\<close>

definition value_map :: "'a \<Rightarrow> ('a \<times> string) list \<Rightarrow> string \<Rightarrow> string" where
  "value_map v mappings default_value =
     (case map_of mappings v of None \<Rightarrow> default_value | Some s \<Rightarrow> s)"

definition source_map :: "(AddressQualifier \<times> string) list" where
  "source_map = [(ADSB_ICAO, ''A''), (ADSB_OTHER, ''A''), (ADSR_OTHER, ''A''),
                 (TISB_ICAO, ''T''), (TISB_TRACKFILE, ''T'')]"

definition supplement_map :: "(SILSupplement \<times> string) list" where
  "supplement_map = [(PER_HOUR, ''perhour''), (PER_SAMPLE, ''persample'')]"

definition airground_map :: "(AirGroundState \<times> string) list" where
  "airground_map =
     [(AIRBORNE_SUBSONIC, ''A+''), (AIRBORNE_SUPERSONIC, ''A+''), (ON_GROUND, ''A+'')]"

definition emergency_map :: "(EmergencyPriorityStatus \<times> string) list" where
  "emergency_map = [(NONE, ''none''), (GENERAL, ''general''), (MEDICAL, ''lifeguard''),
                    (MINFUEL, ''minfuel''), (NORDO, ''nordo''), (UNLAWFUL, ''unlawful''),
                    (DOWNED, ''downed'')]"

definition qualifier_map :: "(AddressQualifier \<times> string) list" where
  "qualifier_map = [(ADSB_ICAO, ''adsb_icao''), (ADSB_OTHER, ''adsb_other''),
                    (TISB_ICAO, ''tisb_icao''), (TISB_TRACKFILE, ''tisb_trackfile''),
                    (VEHICLE, ''vehicle''), (FIXED_BEACON, ''fixed_beacon''),
                    (ADSR_OTHER, ''adsr_other'')]"

text \<open>The stringizers of the individual fields.\<close>

definition category_str :: "u32 \<Rightarrow> string" where
  "category_str c = show_hex 2 (unat ((0xA0 :: u32) + (c AND 7) + push_bit 1 (c AND 0x18)))"

definition braced :: "string \<Rightarrow> string" where
  "braced s = CHR ''{'' # s @ [CHR ''}'']"

definition position_str :: "AircraftState \<Rightarrow> real \<times> real \<Rightarrow> string" where
  "position_str aircraft p =
     (let nic_v = (case fvalue (nic aircraft) of Some n \<Rightarrow> n | None \<Rightarrow> 0);
          rc = (case fvalue (horizontal_containment aircraft) of Some r \<Rightarrow> r | None \<Rightarrow> 0)
      in braced (show_fixed 5 (fst p) @ '' '' @ show_fixed 5 (snd p) @ '' '' @
                 show_nat (unat nic_v) @ '' '' @ show_fixed 0 (of_int \<lceil>rc\<rceil>)))"

text \<open>
  The \<^verbatim>\<open>emit\<close> helper of the mode-indicator stringizer: the stream so far and the
  \<^verbatim>\<open>first\<close> flag are passed and returned.
\<close>

definition emit_item :: "bool \<Rightarrow> string \<Rightarrow> string \<times> bool \<Rightarrow> string \<times> bool" where
  "emit_item v item st =
     (case st of (os, first) \<Rightarrow>
        if v then ((if \<not> first then os @ '' '' else os) @ item, False) else (os, first))"

definition modes_str :: "ModeIndicators \<Rightarrow> string" where
  "modes_str indicators =
     fst (emit_item (lnav indicators) ''lnav''
         (emit_item (approach indicators) ''approach''
         (emit_item (altitude_hold indicators) ''althold''
         (emit_item (vnav indicators) ''vnav''
         (emit_item (autopilot indicators) ''autopilot'' (''{'', True)))))) @ ''}''"

section \<open>The emission decision\<close>

text \<open>An exception thrown by \<^verbatim>\<open>Value()\<close> leaves the function: the rest is skipped.\<close>

definition and_then :: "error + 'a \<Rightarrow> ('a \<Rightarrow> error + 'b) \<Rightarrow> error + 'b" where
  "and_then m f = (case m of Inl e \<Rightarrow> Inl e | Inr x \<Rightarrow> f x)"

subsection \<open>Change detection\<close>

text \<open>
  One line of the change detection has the shape
  \<^verbatim>\<open>old_a && new_a && std::abs(old_b.Value() - new_b.Value()) >= t\<close>:
  \<open>guarded\<close> is the short-circuit test of the two validities, \<open>differs_by\<close> the
  comparison of the two values read.
\<close>

definition guarded :: "'a AgedField \<Rightarrow> 'b AgedField \<Rightarrow> error + bool \<Rightarrow> error + bool" where
  "guarded old new c = (if Valid old \<and> Valid new then c else Inr False)"

definition differs_by :: "('a::linordered_idom) AgedField \<Rightarrow> 'a AgedField \<Rightarrow> 'a \<Rightarrow> error + bool" where
  "differs_by old new t =
     and_then (Value old) (\<lambda>a. and_then (Value new) (\<lambda>b. Inr (t \<le> \<bar>a - b\<bar>)))"

definition pressure_altitude_changed :: "AircraftState \<Rightarrow> AircraftState \<Rightarrow> error + bool" where
  "pressure_altitude_changed last_state aircraft =
     guarded (pressure_altitude last_state) (pressure_altitude aircraft)
       (differs_by (pressure_altitude last_state) (pressure_altitude aircraft) 50)"

text \<open>The second line tests the geometric altitudes and reads the pressure altitudes.\<close>

definition geometric_altitude_changed :: "AircraftState \<Rightarrow> AircraftState \<Rightarrow> error + bool" where
  "geometric_altitude_changed last_state aircraft =
     guarded (geometric_altitude last_state) (geometric_altitude aircraft)
       (differs_by (pressure_altitude last_state) (pressure_altitude aircraft) 50)"

definition detect_changes :: "AircraftState \<Rightarrow> AircraftState \<Rightarrow> error + bool" where
  "detect_changes last_state aircraft =
     and_then (pressure_altitude_changed last_state aircraft) (\<lambda>c1.
     and_then (geometric_altitude_changed last_state aircraft) (\<lambda>c2.
     and_then (guarded (vertical_velocity_barometric last_state) (vertical_velocity_barometric aircraft)
        (differs_by (vertical_velocity_barometric last_state) (vertical_velocity_barometric aircraft) 500)) (\<lambda>c3.
     and_then (guarded (vertical_velocity_geometric last_state) (vertical_velocity_geometric aircraft)
        (differs_by (vertical_velocity_geometric last_state) (vertical_velocity_geometric aircraft) 500)) (\<lambda>c4.
     and_then (guarded (true_track last_state) (true_track aircraft)
        (differs_by (true_track last_state) (true_track aircraft) 2)) (\<lambda>c5.
     and_then (guarded (true_heading last_state) (true_heading aircraft)
        (differs_by (true_heading last_state) (true_heading aircraft) 2)) (\<lambda>c6.
     and_then (guarded (magnetic_heading last_state) (magnetic_heading aircraft)
        (differs_by (magnetic_heading last_state) (magnetic_heading aircraft) 2)) (\<lambda>c7.
     and_then (guarded (ground_speed last_state) (ground_speed aircraft)
        (differs_by (ground_speed last_state) (ground_speed aircraft) 25)) (\<lambda>c8.
     Inr (c1 \<or> c2 \<or> c3 \<or> c4 \<or> c5 \<or> c6 \<or> c7 \<or> c8)))))))))"

subsection \<open>Immediate triggers\<close>

definition immediate_trigger :: "AircraftState \<Rightarrow> u64 \<Rightarrow> bool" where
  "immediate_trigger aircraft rt =
     (rt < Changed (selected_altitude_mcp aircraft) \<or>
      rt < Changed (selected_altitude_fms aircraft) \<or>
      rt < Changed (selected_heading aircraft) \<or>
      rt < Changed (mode_indicators aircraft) \<or>
      rt < Changed (barometric_pressure_setting aircraft) \<or>
      rt < Changed (callsign aircraft) \<or>
      rt < Changed (flightplan_id aircraft) \<or>
      rt < Changed (airground_state aircraft) \<or>
      rt < Changed (emergency aircraft))"

subsection \<open>Flight-phase hints\<close>

text \<open>A field read when its update age is below 30 seconds; the read is not guarded by \<^verbatim>\<open>Valid()\<close>.\<close>

definition read_value :: "'a AgedField \<Rightarrow> error + 'a option" where
  "read_value f = and_then (Value f) (\<lambda>v. Inr (Some v))"

definition phase_altitude :: "AircraftState \<Rightarrow> u64 \<Rightarrow> error + int option" where
  "phase_altitude aircraft now =
     (if UpdateAge (pressure_altitude aircraft) now < 30000 then read_value (pressure_altitude aircraft)
      else if UpdateAge (geometric_altitude aircraft) now < 30000 then read_value (geometric_altitude aircraft)
      else Inr None)"

definition phase_airground :: "AircraftState \<Rightarrow> u64 \<Rightarrow> error + AirGroundState option" where
  "phase_airground aircraft now =
     (if UpdateAge (airground_state aircraft) now < 30000 then read_value (airground_state aircraft)
      else Inr None)"

definition phase_groundspeed :: "AircraftState \<Rightarrow> u64 \<Rightarrow> error + int option" where
  "phase_groundspeed aircraft now =
     (if UpdateAge (ground_speed aircraft) now < 30000 then read_value (ground_speed aircraft)
      else Inr None)"

subsection \<open>Minimum report interval\<close>

text \<open>\<^verbatim>\<open>x && x.get() < n\<close> and \<^verbatim>\<open>!x || x.get() < n\<close> on a \<^verbatim>\<open>boost::optional<int>\<close>.\<close>

definition known_below :: "int option \<Rightarrow> int \<Rightarrow> bool" where
  "known_below x n = (case x of None \<Rightarrow> False | Some v \<Rightarrow> v < n)"

definition unknown_or_below :: "int option \<Rightarrow> int \<Rightarrow> bool" where
  "unknown_or_below x n = (case x of None \<Rightarrow> True | Some v \<Rightarrow> v < n)"

definition min_age ::
  "bool \<Rightarrow> AirGroundState option \<Rightarrow> int option \<Rightarrow> int option \<Rightarrow> bool \<Rightarrow> u64" where
  "min_age immediate airground altitude groundspeed changed =
     (if immediate then 0
      else if airground = Some ON_GROUND then 1000
      else if known_below altitude 500 \<and> unknown_or_below groundspeed 200 then 1000
      else if known_below groundspeed 100 \<and> unknown_or_below altitude 1000 then 1000
      else if unknown_or_below altitude 10000 then (if changed then 5000 else 10000)
      else (if changed then 10000 else 30000))"

subsection \<open>Field selection\<close>

text \<open>
  The three lambdas that append to \<^verbatim>\<open>kv\<close>. Each tests \<^verbatim>\<open>f.Valid()\<close> before its
  stringizer reads the value of the same field, so the test and the read are one case
  distinction on the optional value. \<open>rt\<close> is \<^verbatim>\<open>last.report_time\<close>.
\<close>

definition aged_suffix :: "'a AgedField \<Rightarrow> u64 \<Rightarrow> string \<Rightarrow> string" where
  "aged_suffix f now source = '' '' @ show_nat (unat (UpdateAge f now div 1000)) @ '' '' @ source"

definition add_slow_field ::
  "u64 \<Rightarrow> bool \<Rightarrow> string \<Rightarrow> 'a AgedField \<Rightarrow> ('a \<Rightarrow> string) \<Rightarrow> (string \<times> string) list" where
  "add_slow_field rt force_slow k f stringize =
     (case fvalue f of
        None \<Rightarrow> []
      | Some v \<Rightarrow> if force_slow \<or> rt < Changed f then [(k, stringize v)] else [])"

definition add_slow_aged_field ::
  "u64 \<Rightarrow> bool \<Rightarrow> u64 \<Rightarrow> string \<Rightarrow> string \<Rightarrow> 'a AgedField \<Rightarrow> ('a \<Rightarrow> string) \<Rightarrow> (string \<times> string) list" where
  "add_slow_aged_field rt force_slow now source k f stringize =
     (case fvalue f of
        None \<Rightarrow> []
      | Some v \<Rightarrow> if force_slow \<or> rt < Changed f
                  then [(k, stringize v @ aged_suffix f now source)] else [])"

definition add_aged_field ::
  "u64 \<Rightarrow> u64 \<Rightarrow> string \<Rightarrow> string \<Rightarrow> 'a AgedField \<Rightarrow> ('a \<Rightarrow> string) \<Rightarrow> (string \<times> string) list" where
  "add_aged_field rt now source k f stringize =
     (case fvalue f of
        None \<Rightarrow> []
      | Some v \<Rightarrow> if rt < Updated f then [(k, stringize v @ aged_suffix f now source)] else [])"

definition show_u32 :: "u32 \<Rightarrow> string" where
  "show_u32 w = show_nat (unat w)"

definition slow_fields :: "AircraftState \<Rightarrow> u64 \<Rightarrow> u64 \<Rightarrow> bool \<Rightarrow> string \<Rightarrow> (string \<times> string) list" where
  "slow_fields aircraft now rt force_slow source =
     add_slow_field rt force_slow ''uat_version'' (mops_version aircraft) show_u32 @
     add_slow_field rt force_slow ''category'' (emitter_category aircraft) category_str @
     add_slow_aged_field rt force_slow now source ''nac_p'' (nac_p aircraft) show_u32 @
     add_slow_aged_field rt force_slow now source ''nac_v'' (nac_v aircraft) show_u32 @
     add_slow_aged_field rt force_slow now source ''sil'' (sil aircraft) show_u32 @
     add_slow_aged_field rt force_slow now source ''sil_type'' (sil_supplement aircraft)
        (\<lambda>v. value_map v supplement_map ''unknown'') @
     add_slow_aged_field rt force_slow now source ''nic_baro'' (nic_baro aircraft) show_u32"

definition fast_fields :: "AircraftState \<Rightarrow> u64 \<Rightarrow> u64 \<Rightarrow> string \<Rightarrow> (string \<times> string) list" where
  "fast_fields aircraft now rt source =
     add_aged_field rt now source ''airGround'' (airground_state aircraft)
        (\<lambda>v. value_map v airground_map ''?'') @
     add_aged_field rt now source ''squawk'' (flightplan_id aircraft) braced @
     add_aged_field rt now source ''ident'' (callsign aircraft) braced @
     add_aged_field rt now source ''alt'' (pressure_altitude aircraft) show_int @
     add_aged_field rt now source ''position'' (position aircraft) (position_str aircraft) @
     add_aged_field rt now source ''alt_gnss'' (geometric_altitude aircraft) show_int @
     add_aged_field rt now source ''vrate'' (vertical_velocity_barometric aircraft) show_int @
     add_aged_field rt now source ''vrate_geom'' (vertical_velocity_geometric aircraft) show_int @
     add_aged_field rt now source ''speed'' (ground_speed aircraft) show_int @
     add_aged_field rt now source ''track'' (true_track aircraft) (show_fixed 1) @
     add_aged_field rt now source ''heading_magnetic'' (magnetic_heading aircraft) (show_fixed 1) @
     add_aged_field rt now source ''heading_true'' (true_heading aircraft) (show_fixed 1) @
     add_aged_field rt now source ''nav_alt_mcp'' (selected_altitude_mcp aircraft) show_int @
     add_aged_field rt now source ''nav_alt_fms'' (selected_altitude_fms aircraft) show_int @
     add_aged_field rt now source ''nav_heading'' (selected_heading aircraft) (show_fixed 0) @
     add_aged_field rt now source ''nav_modes'' (mode_indicators aircraft) modes_str @
     add_aged_field rt now source ''nav_qnh'' (barometric_pressure_setting aircraft) (show_fixed 1) @
     add_aged_field rt now source ''emergency'' (emergency aircraft)
        (\<lambda>v. value_map v emergency_map ''unknown'')"

definition select_fields :: "AircraftState \<Rightarrow> u64 \<Rightarrow> u64 \<Rightarrow> bool \<Rightarrow> (string \<times> string) list" where
  "select_fields aircraft now rt force_slow =
     (let source = value_map (address_qualifier aircraft) source_map ''?''
      in slow_fields aircraft now rt force_slow source @ fast_fields aircraft now rt source)"

subsection \<open>The emitted line\<close>

text \<open>
  What one emission writes to the output stream, segment by segment: the clock
  (\<^verbatim>\<open>now / 1000\<close>), whether the address is labelled \<^verbatim>\<open>hexid\<close>, the address, the
  \<^verbatim>\<open>addrtype\<close> segment when it is written, and the selected fields. \<open>render_line\<close>
  is the text itself.
\<close>

record report_line =
  line_clock :: u64
  line_icao :: bool
  line_address :: u32
  line_addrtype :: "string option"
  line_fields :: "(string \<times> string) list"

definition TSV_VERSION :: string where
  "TSV_VERSION = ''4U''"

definition tab :: string where
  "tab = [CHR 0x09]"

definition render_line :: "report_line \<Rightarrow> string" where
  "render_line l =
     ''_v'' @ tab @ TSV_VERSION @ tab @ ''clock'' @ tab @ show_nat (unat (line_clock l)) @ tab @
     (if line_icao l then ''hexid'' else ''otherid'') @ tab @ show_hex 6 (unat (line_address l)) @
     (case line_addrtype l of None \<Rightarrow> [] | Some q \<Rightarrow> tab @ ''addrtype'' @ tab @ q) @
     concat (map (\<lambda>entry. tab @ fst entry @ tab @ snd entry) (line_fields l)) @
     [CHR 0x0A]"

definition make_line :: "AircraftState \<Rightarrow> u64 \<Rightarrow> bool \<Rightarrow> (string \<times> string) list \<Rightarrow> report_line" where
  "make_line aircraft now force_slow kv =
     (let icao = (address_qualifier aircraft = ADSB_ICAO \<or> address_qualifier aircraft = TISB_ICAO)
      in \<lparr>line_clock = now div 1000,
          line_icao = icao,
          line_address = address aircraft,
          line_addrtype = (if force_slow \<or> \<not> icao
                           then Some (value_map (address_qualifier aircraft) qualifier_map ''unknown'')
                           else None),
          line_fields = kv\<rparr>)"

subsection \<open>ReportOneAircraft\<close>

text \<open>
  \<^verbatim>\<open>reported_[key]\<close>: the record of the key, created if the ledger has none. The
  reference \<^verbatim>\<open>last\<close> is the record returned (\<open>last_record\<close> below); writes through it are
  \<open>AList.update key\<close> on the ledger.
\<close>

definition ledger_index :: "ledger \<Rightarrow> AddressKey \<Rightarrow> ledger \<times> ReportRecord" where
  "ledger_index reported key =
     (case map_of reported key of
        Some r \<Rightarrow> (reported, r)
      | None \<Rightarrow> (reported @ [(key, new_record)], new_record))"

text \<open>\<^verbatim>\<open>adsb != reported_.end() && adsb->second.report_time > 0\<close>\<close>

definition adsb_reported :: "ledger \<Rightarrow> u32 \<Rightarrow> bool" where
  "adsb_reported reported a =
     (case map_of reported (ADSB_ICAO, a) of None \<Rightarrow> False | Some adsb \<Rightarrow> 0 < report_time adsb)"

text \<open>
  The result is the ledger after the call and the line written, if one was; or the error
  of a \<^verbatim>\<open>Value()\<close> read on a field that is not valid. The test
  \<^verbatim>\<open>aircraft.messages < 2\<close> at the head of the function has an empty body and does
  not appear.
\<close>

definition ReportOneAircraft ::
  "AddressKey \<Rightarrow> AircraftState \<Rightarrow> u64 \<Rightarrow> ledger \<Rightarrow> error + (ledger \<times> report_line option)" where
  "ReportOneAircraft key aircraft now reported0 =
     (case ledger_index reported0 key of (reported, last_record) \<Rightarrow>
      if last_message_time aircraft \<le> report_time last_record then Inr (reported, None)
      else if address_qualifier aircraft = TISB_ICAO \<and> adsb_reported reported (address aircraft)
      then Inr (AList.update key (last_record\<lparr>report_time := 0, slow_report_time := 0\<rparr>) reported, None)
      else
        and_then (detect_changes (report_state last_record) aircraft) (\<lambda>changed.
        let immediate = immediate_trigger aircraft (report_time last_record) in
        and_then (phase_altitude aircraft now) (\<lambda>altitude.
        and_then (phase_airground aircraft now) (\<lambda>airground.
        and_then (phase_groundspeed aircraft now) (\<lambda>groundspeed.
        let minAge = min_age immediate airground altitude groundspeed changed;
            force_slow = (300000 < now - slow_report_time last_record)
        in if now - report_time last_record < minAge then Inr (reported, None)
           else
             let kv = select_fields aircraft now (report_time last_record) force_slow
             in if kv = [] then Inr (reported, None)
                else Inr (AList.update key
                            \<lparr>report_time = now,
                             slow_report_time = (if force_slow then now else slow_report_time last_record),
                             report_state = aircraft\<rparr> reported,
                          Some (make_line aircraft now force_slow kv)))))))"

text \<open>The line an evaluation wrote, if it returned and wrote one.\<close>

definition emitted :: "error + (ledger \<times> report_line option) \<Rightarrow> report_line option" where
  "emitted res = (case res of Inl e \<Rightarrow> None | Inr p \<Rightarrow> snd p)"

section \<open>The periodic tasks\<close>

text \<open>
  The state of the reporter that the two tasks use: what the Tracker's
  \<^verbatim>\<open>Aircraft()\<close> returns, and the ledger. The timers that re-run the tasks are not
  modelled: one firing is one call.
\<close>

record Reporter =
  tracker_aircraft :: tracked
  reported_ledger :: ledger

text \<open>\<^verbatim>\<open>aircraft.count(k)\<close> on a \<^verbatim>\<open>std::map\<close>.\<close>

definition count_key :: "('k \<times> 'v) list \<Rightarrow> 'k \<Rightarrow> nat" where
  "count_key m k = (case map_of m k of None \<Rightarrow> 0 | Some _ \<Rightarrow> 1)"

text \<open>The loop of \<^verbatim>\<open>PurgeOld\<close> over the ledger, erasing as it goes.\<close>

fun purge_loop :: "tracked \<Rightarrow> ledger \<Rightarrow> ledger" where
  "purge_loop aircraft [] = []"
| "purge_loop aircraft (i # rest) =
     (if count_key aircraft (fst i) = 0 then purge_loop aircraft rest
      else i # purge_loop aircraft rest)"

text \<open>
  \<^verbatim>\<open>tracker_->PurgeOld()\<close> belongs to the Tracker, which is not among the sources: it
  is the parameter \<open>tracker_purge\<close>, a change of the Tracker's own store.
\<close>

definition PurgeOld :: "(tracked \<Rightarrow> tracked) \<Rightarrow> Reporter \<Rightarrow> Reporter" where
  "PurgeOld tracker_purge st =
     (let aircraft = tracker_purge (tracker_aircraft st)
      in \<lparr>tracker_aircraft = aircraft, reported_ledger = purge_loop aircraft (reported_ledger st)\<rparr>)"

text \<open>The loop of \<^verbatim>\<open>PeriodicReport\<close>: every tracked aircraft is evaluated at the same \<open>now\<close>.\<close>

fun report_loop :: "tracked \<Rightarrow> u64 \<Rightarrow> ledger \<Rightarrow> error + (ledger \<times> report_line list)" where
  "report_loop [] now reported = Inr (reported, [])"
| "report_loop (entry # rest) now reported =
     and_then (ReportOneAircraft (fst entry) (snd entry) now reported) (\<lambda>r1.
     and_then (report_loop rest now (fst r1)) (\<lambda>r2.
     Inr (fst r2, (case snd r1 of None \<Rightarrow> [] | Some l \<Rightarrow> [l]) @ snd r2)))"

definition PeriodicReport :: "u64 \<Rightarrow> Reporter \<Rightarrow> error + (Reporter \<times> report_line list)" where
  "PeriodicReport now st =
     and_then (report_loop (tracker_aircraft st) now (reported_ledger st)) (\<lambda>r.
     Inr (st\<lparr>reported_ledger := fst r\<rparr>, snd r))"

section \<open>Example states\<close>

text \<open>
  Concrete aircraft and ledgers on which the properties below are exercised. All carry
  the address \<open>0xABCDEF\<close>; the time arguments are milliseconds.
\<close>

text \<open>An aircraft that has only ever sent a geometric altitude, last at \<open>t\<close>.\<close>

definition geo_only :: "int \<Rightarrow> u64 \<Rightarrow> AircraftState" where
  "geo_only alt t = empty_state\<lparr>address := 0xABCDEF, last_message_time := t,
      geometric_altitude := aged alt t t\<rparr>"

text \<open>An aircraft with pressure altitude \<open>p\<close> and geometric altitude \<open>g\<close>, both sent at \<open>t\<close>.\<close>

definition both_alts :: "int \<Rightarrow> int \<Rightarrow> u64 \<Rightarrow> AircraftState" where
  "both_alts p g t = empty_state\<lparr>address := 0xABCDEF, last_message_time := t,
      pressure_altitude := aged p t 1000, geometric_altitude := aged g t t\<rparr>"

text \<open>
  A cruising aircraft: airborne, pressure altitude 35000, ground speed 450, emitter
  category 3. Every field was last assigned at \<open>t\<close> and last changed at 900000.
\<close>

definition cruise :: "u64 \<Rightarrow> AircraftState" where
  "cruise t = empty_state\<lparr>address := 0xABCDEF, last_message_time := t,
      pressure_altitude := aged 35000 t 900000,
      airground_state := aged AIRBORNE_SUBSONIC t 900000,
      ground_speed := aged 450 t 900000,
      emitter_category := aged 3 t 900000\<rparr>"

text \<open>The ledger after that aircraft was reported, in full, at 1000000.\<close>

definition cruise_ledger :: ledger where
  "cruise_ledger =
     [((ADSB_ICAO, 0xABCDEF),
       \<lparr>report_time = 1000000, slow_report_time = 1000000, report_state = cruise 1000000\<rparr>)]"

text \<open>The same aircraft after its callsign changed at \<open>t\<close>.\<close>

definition cruise_renamed :: "u64 \<Rightarrow> AircraftState" where
  "cruise_renamed t = (cruise t)\<lparr>callsign := aged ''N12345'' t t\<rparr>"

text \<open>The TIS-B relay of the same address, whose callsign changed at \<open>t\<close>.\<close>

definition tisb_renamed :: "u64 \<Rightarrow> AircraftState" where
  "tisb_renamed t = empty_state\<lparr>address_qualifier := TISB_ICAO, address := 0xABCDEF,
      last_message_time := t, callsign := aged ''N12345'' t t\<rparr>"

text \<open>A ledger holding the direct ADS-B record, reported at 1000000, and the TIS-B record.\<close>

definition both_sources_ledger :: ledger where
  "both_sources_ledger =
     [((ADSB_ICAO, 0xABCDEF),
       \<lparr>report_time = 1000000, slow_report_time = 1000000, report_state = cruise 1000000\<rparr>),
      ((TISB_ICAO, 0xABCDEF),
       \<lparr>report_time = 900000, slow_report_time = 900000, report_state = tisb_renamed 800000\<rparr>)]"

text \<open>
  An aircraft heard at 2000 whose only reported field, the pressure altitude, was last
  assigned at 500; and the ledger after it was reported at 1000.
\<close>

definition quiet :: AircraftState where
  "quiet = empty_state\<lparr>address := 0xABCDEF, last_message_time := 2000,
      pressure_altitude := aged 1000 500 500\<rparr>"

definition quiet_ledger :: ledger where
  "quiet_ledger =
     [((ADSB_ICAO, 0xABCDEF),
       \<lparr>report_time = 1000, slow_report_time = 1000, report_state = quiet\<rparr>)]"

text \<open>An aircraft taxiing: on the ground, pressure altitude 300, ground speed 12.\<close>

definition taxiing :: "u64 \<Rightarrow> AircraftState" where
  "taxiing t = empty_state\<lparr>address := 0xABCDEF, last_message_time := t,
      pressure_altitude := aged 300 t t,
      airground_state := aged ON_GROUND t t,
      ground_speed := aged 12 t t\<rparr>"

section \<open>Auxiliary facts\<close>

lemma and_then_Inr [simp]: "and_then (Inr x) f = f x"
  by (simp add: and_then_def)

lemma and_then_Inl [simp]: "and_then (Inl e) f = Inl e"
  by (simp add: and_then_def)

lemmas field_defs = Valid_def Value_def Updated_def Changed_def UpdateAge_def unset_def aged_def

lemmas change_defs = detect_changes_def pressure_altitude_changed_def
  geometric_altitude_changed_def guarded_def differs_by_def

lemmas phase_defs = phase_altitude_def phase_airground_def phase_groundspeed_def read_value_def

lemmas age_defs = min_age_def known_below_def unknown_or_below_def

lemmas select_defs = select_fields_def slow_fields_def fast_fields_def add_slow_field_def
  add_slow_aged_field_def add_aged_field_def aged_suffix_def value_map_def source_map_def
  airground_map_def supplement_map_def emergency_map_def qualifier_map_def Let_def

lemmas show_defs = show_int_def show_nat_def show_u32_def digit_char_def category_str_def
  show_hex_def pad_left_def braced_def

lemmas example_defs = cruise_def cruise_ledger_def cruise_renamed_def tisb_renamed_def
  both_sources_ledger_def quiet_def quiet_ledger_def geo_only_def both_alts_def taxiing_def
  empty_state_def

lemmas report_defs = ReportOneAircraft_def ledger_index_def new_record_def adsb_reported_def
  immediate_trigger_def make_line_def

section \<open>Purge\<close>

lemma count_key_zero: "(count_key m k = 0) = (k \<notin> fst ` set m)"
proof (cases "map_of m k")
  case None
  then have "k \<notin> fst ` set m" by (simp add: map_of_eq_None_iff)
  with None show ?thesis by (simp add: count_key_def)
next
  case (Some v)
  then have "k \<in> fst ` set m" by (metis map_of_eq_None_iff option.distinct(1))
  with Some show ?thesis by (simp add: count_key_def)
qed

lemma purge_loop_filter:
  "purge_loop aircraft reported = filter (\<lambda>i. fst i \<in> fst ` set aircraft) reported"
  by (induction reported) (simp_all add: count_key_zero)

text \<open>After a purge every key of the ledger is a key of the Tracker's enumeration.\<close>

lemma purged_keys_are_tracked:
  "fst ` set (reported_ledger (PurgeOld tracker_purge st))
     \<subseteq> fst ` set (tracker_aircraft (PurgeOld tracker_purge st))"
  by (force simp: PurgeOld_def Let_def purge_loop_filter)

text \<open>
  C9. A purge firing keeps, in their order and with their records, exactly the ledger
  entries whose key is in the Tracker's enumeration after the Tracker's own purge, and
  removes every other entry: the ledger after the purge is the ledger before it filtered
  by membership of the key in that enumeration. Nothing else (no timestamp of the record)
  enters the test.
\<close>

theorem PurgeOld_removes_exactly_absent:
  "reported_ledger (PurgeOld tracker_purge st) =
     filter (\<lambda>i. fst i \<in> fst ` set (tracker_aircraft (PurgeOld tracker_purge st)))
       (reported_ledger st)"
  by (simp add: PurgeOld_def Let_def purge_loop_filter)

text \<open>
  An instance: the Tracker's purge drops the TIS-B aircraft; the purge of the ledger then
  drops the TIS-B record and keeps the ADS-B one, although it was reported long ago.
\<close>

theorem PurgeOld_removes_exactly_absent_witness:
  "reported_ledger
     (PurgeOld (filter (\<lambda>e. fst (fst e) = ADSB_ICAO))
        \<lparr>tracker_aircraft = [((ADSB_ICAO, 0xABCDEF), cruise 1000000),
                              ((TISB_ICAO, 0xABCDEF), tisb_renamed 800000)],
         reported_ledger = both_sources_ledger\<rparr>)
   = [hd both_sources_ledger]"
proof -
  let ?purge = "filter (\<lambda>e :: AddressKey \<times> AircraftState. fst (fst e) = ADSB_ICAO)"
  let ?st = "\<lparr>tracker_aircraft = [((ADSB_ICAO, 0xABCDEF), cruise 1000000),
                                 ((TISB_ICAO, 0xABCDEF), tisb_renamed 800000)],
            reported_ledger = both_sources_ledger\<rparr>"
  have t: "tracker_aircraft (PurgeOld ?purge ?st) = [((ADSB_ICAO, 0xABCDEF), cruise 1000000)]"
    by (simp add: PurgeOld_def Let_def)
  have "reported_ledger (PurgeOld ?purge ?st) =
      filter (\<lambda>i. fst i \<in> fst ` set [((ADSB_ICAO, 0xABCDEF), cruise 1000000)])
        both_sources_ledger"
    using PurgeOld_removes_exactly_absent [of ?purge ?st] unfolding t by simp
  then show ?thesis
    by (simp add: both_sources_ledger_def)
qed

section \<open>Change detection and reads of unset fields\<close>

text \<open>What the geometric-altitude line of the change detection computes.\<close>

lemma geometric_altitude_changed_reads_pressure:
  "geometric_altitude_changed last_state aircraft =
     (if Valid (geometric_altitude last_state) \<and> Valid (geometric_altitude aircraft)
      then (case (fvalue (pressure_altitude last_state), fvalue (pressure_altitude aircraft)) of
              (Some a, Some b) \<Rightarrow> Inr (50 \<le> \<bar>a - b\<bar>)
            | _ \<Rightarrow> Inl InvalidFieldRead)
      else Inr False)"
  by (simp add: geometric_altitude_changed_def guarded_def differs_by_def Value_def
      split: option.splits)

text \<open>
  C1. The claim: \<open>changed\<close> is set when the previously reported and the current geometric
  altitude are both valid and differ by at least 50. The code at a state where they are
  valid and differ by 1000, while the pressure altitude stays at 35000: the
  geometric-altitude line yields false, and so does the whole change detection.
\<close>

theorem geometric_altitude_change_not_detected:
  "fvalue (geometric_altitude (both_alts 35000 35000 1000)) = Some 35000 \<and>
   fvalue (geometric_altitude (both_alts 35000 36000 2000)) = Some 36000 \<and>
   geometric_altitude_changed (both_alts 35000 35000 1000) (both_alts 35000 36000 2000) = Inr False \<and>
   detect_changes (both_alts 35000 35000 1000) (both_alts 35000 36000 2000) = Inr False"
  by (simp add: change_defs both_alts_def empty_state_def field_defs)

text \<open>
  C3. The claim: no evaluation reads \<open>Value()\<close> of a field that is not valid. The code on
  an aircraft that only sends its geometric altitude: the first evaluation, on an empty
  ledger, emits a line; the second, after a new message, reads the pressure altitude in
  the geometric-altitude line of the change detection, where only the geometric altitudes
  were tested, and the read fails.
\<close>

theorem geometric_altitude_check_reads_invalid_field:
  "(case ReportOneAircraft (ADSB_ICAO, 0xABCDEF) (geo_only 5000 100000) 100500 [] of
      Inr (reported, Some l) \<Rightarrow>
        ReportOneAircraft (ADSB_ICAO, 0xABCDEF) (geo_only 5100 101500) 102000 reported
          = Inl InvalidFieldRead
    | _ \<Rightarrow> False)"
  by (simp add: report_defs change_defs phase_defs age_defs select_defs show_defs
       geo_only_def empty_state_def field_defs)

text \<open>
  The flight-phase reads are guarded by the update age alone. With the update age of the
  spec (\<open>now - Updated()\<close>), a field that satisfies the invariant is valid whenever its
  update age is below \<open>30000\<close>, provided \<open>now\<close> itself is at least \<open>30000\<close>; at an
  earlier \<open>now\<close> a field never set passes the age test.
\<close>

lemma fresh_field_is_valid:
  assumes "field_ok f" and "30000 \<le> now" and "UpdateAge f now < 30000"
  shows "Valid f"
proof (rule ccontr)
  assume "\<not> Valid f"
  with assms(1) have "Updated f = 0"
    by (simp add: field_ok_def)
  with assms(3) have "now < 30000"
    by (simp add: UpdateAge_def)
  with assms(2) show False
    by simp
qed

lemma phase_altitude_early_read:
  "phase_altitude empty_state 1000 = Inl InvalidFieldRead"
  by (simp add: phase_defs empty_state_def field_defs)
section \<open>The evaluation, case by case\<close>

lemma ledger_index_lookup:
  "ledger_index reported key = (led0, r) \<Longrightarrow> map_of led0 key = Some r"
  by (auto simp: ledger_index_def map_add_def split: option.splits)

lemma ledger_index_again:
  "ledger_index reported key = (led0, r) \<Longrightarrow> ledger_index led0 key = (led0, r)"
  using ledger_index_lookup [of reported key led0 r] by (simp add: ledger_index_def)

lemma ledger_index_other:
  "ledger_index reported key = (led0, r) \<Longrightarrow> k \<noteq> key \<Longrightarrow> map_of led0 k = map_of reported k"
  by (auto simp: ledger_index_def map_add_def split: option.splits)

lemma ledger_index_update:
  "ledger_index (AList.update key r led) key = (AList.update key r led, r)"
  by (simp add: ledger_index_def update_conv')

text \<open>The evaluation once the record of the key is known.\<close>

lemma ReportOneAircraft_record:
  assumes "ledger_index reported0 key = (reported, r)"
  shows "ReportOneAircraft key aircraft now reported0 =
     (if last_message_time aircraft \<le> report_time r then Inr (reported, None)
      else if address_qualifier aircraft = TISB_ICAO \<and> adsb_reported reported (address aircraft)
      then Inr (AList.update key (r\<lparr>report_time := 0, slow_report_time := 0\<rparr>) reported, None)
      else
        and_then (detect_changes (report_state r) aircraft) (\<lambda>changed.
        and_then (phase_altitude aircraft now) (\<lambda>altitude.
        and_then (phase_airground aircraft now) (\<lambda>airground.
        and_then (phase_groundspeed aircraft now) (\<lambda>groundspeed.
        if now - report_time r
             < min_age (immediate_trigger aircraft (report_time r)) airground altitude groundspeed changed
        then Inr (reported, None)
        else if select_fields aircraft now (report_time r) (300000 < now - slow_report_time r) = []
        then Inr (reported, None)
        else Inr (AList.update key
                    \<lparr>report_time = now,
                     slow_report_time =
                       (if 300000 < now - slow_report_time r then now else slow_report_time r),
                     report_state = aircraft\<rparr> reported,
                  Some (make_line aircraft now (300000 < now - slow_report_time r)
                     (select_fields aircraft now (report_time r)
                        (300000 < now - slow_report_time r)))))))))"
  by (simp only: ReportOneAircraft_def Let_def assms prod.case)

text \<open>The evaluation once the two first gates are passed and every read has succeeded.\<close>

lemma ReportOneAircraft_after_reads:
  assumes "ledger_index reported0 key = (reported, r)"
      and "report_time r < last_message_time aircraft"
      and "\<not> (address_qualifier aircraft = TISB_ICAO \<and> adsb_reported reported (address aircraft))"
      and "detect_changes (report_state r) aircraft = Inr changed"
      and "phase_altitude aircraft now = Inr altitude"
      and "phase_airground aircraft now = Inr airground"
      and "phase_groundspeed aircraft now = Inr groundspeed"
  shows "ReportOneAircraft key aircraft now reported0 =
     (if now - report_time r
           < min_age (immediate_trigger aircraft (report_time r)) airground altitude groundspeed changed
      then Inr (reported, None)
      else if select_fields aircraft now (report_time r) (300000 < now - slow_report_time r) = []
      then Inr (reported, None)
      else Inr (AList.update key
                  \<lparr>report_time = now,
                   slow_report_time =
                     (if 300000 < now - slow_report_time r then now else slow_report_time r),
                   report_state = aircraft\<rparr> reported,
                Some (make_line aircraft now (300000 < now - slow_report_time r)
                   (select_fields aircraft now (report_time r)
                      (300000 < now - slow_report_time r)))))"
proof -
  have n: "(last_message_time aircraft \<le> report_time r) = False"
    using assms(2) by (simp add: not_le)
  have g: "(address_qualifier aircraft = TISB_ICAO \<and> adsb_reported reported (address aircraft)) = False"
    using assms(3) by simp
  show ?thesis
    unfolding ReportOneAircraft_record [OF assms(1)]
    by (simp only: n g assms(4-7) and_then_Inr if_False)
qed

text \<open>The three ways an evaluation returns.\<close>

lemma ReportOneAircraft_outcomes:
  assumes "ledger_index reported0 key = (reported, r)"
      and "ReportOneAircraft key aircraft now reported0 = Inr (reported1, out)"
  shows "(reported1 = reported \<and> out = None) \<or>
         (report_time r < last_message_time aircraft \<and>
          address_qualifier aircraft = TISB_ICAO \<and> adsb_reported reported (address aircraft) \<and>
          reported1 = AList.update key (r\<lparr>report_time := 0, slow_report_time := 0\<rparr>) reported \<and>
          out = None) \<or>
         (report_time r < last_message_time aircraft \<and>
          \<not> (address_qualifier aircraft = TISB_ICAO \<and> adsb_reported reported (address aircraft)) \<and>
          select_fields aircraft now (report_time r) (300000 < now - slow_report_time r) \<noteq> [] \<and>
          reported1 = AList.update key
                    \<lparr>report_time = now,
                     slow_report_time =
                       (if 300000 < now - slow_report_time r then now else slow_report_time r),
                     report_state = aircraft\<rparr> reported \<and>
          out = Some (make_line aircraft now (300000 < now - slow_report_time r)
                     (select_fields aircraft now (report_time r)
                        (300000 < now - slow_report_time r))))"
  using assms(2) unfolding ReportOneAircraft_record [OF assms(1)]
  by (auto simp: and_then_def split: if_splits sum.splits)

text \<open>The line of an emission.\<close>

lemma emitted_line:
  assumes "ledger_index reported0 key = (reported, r)"
      and "ReportOneAircraft key aircraft now reported0 = Inr (reported1, Some l)"
  shows "l = make_line aircraft now (300000 < now - slow_report_time r)
               (select_fields aircraft now (report_time r) (300000 < now - slow_report_time r))"
  using ReportOneAircraft_outcomes [OF assms] by auto

text \<open>
  The entries that the three field lambdas append: an entry of a field lambda has the
  lambda's key, the field is valid and passes the lambda's test, and the value is the
  stringized value of the field (with the age and source suffix for the aged lambdas).
\<close>

lemma add_aged_field_mem:
  "((k', s) \<in> set (add_aged_field rt now source k f stringize)) =
     (k' = k \<and> (\<exists>v. fvalue f = Some v \<and> rt < Updated f \<and> s = stringize v @ aged_suffix f now source))"
  by (cases "fvalue f") (auto simp: add_aged_field_def)

lemma add_slow_field_mem:
  "((k', s) \<in> set (add_slow_field rt fs k f stringize)) =
     (k' = k \<and> (\<exists>v. fvalue f = Some v \<and> (fs \<or> rt < Changed f) \<and> s = stringize v))"
  by (cases "fvalue f") (auto simp: add_slow_field_def)

lemma add_slow_aged_field_mem:
  "((k', s) \<in> set (add_slow_aged_field rt fs now source k f stringize)) =
     (k' = k \<and> (\<exists>v. fvalue f = Some v \<and> (fs \<or> rt < Changed f) \<and>
                     s = stringize v @ aged_suffix f now source))"
  by (cases "fvalue f") (auto simp: add_slow_aged_field_def)

lemmas entry_mem = add_slow_field_mem add_slow_aged_field_mem add_aged_field_mem

lemmas selection_defs = select_fields_def Let_def slow_fields_def fast_fields_def
section \<open>Source preference\<close>

text \<open>
  C4. An evaluation of a key whose qualifier is \<open>TISB_ICAO\<close>, for the aircraft of that
  key, with new data (the last message is later than the report time of the key's record,
  which is zero when the record is created by this evaluation): if the ledger holds a
  record for \<open>(ADSB_ICAO, same address)\<close> whose report time is positive, the evaluation
  emits no line, and afterwards the record of the TIS-B key has report time 0 and slow
  report time 0. The sibling record is untouched.
\<close>

theorem tisb_suppressed_when_adsb_reported:
  assumes q: "address_qualifier aircraft = TISB_ICAO"
      and k: "key = (TISB_ICAO, address aircraft)"
      and new: "report_time (snd (ledger_index reported key)) < last_message_time aircraft"
      and sib: "map_of reported (ADSB_ICAO, address aircraft) = Some adsb"
      and pos: "0 < report_time adsb"
  shows "\<exists>reported'. ReportOneAircraft key aircraft now reported = Inr (reported', None) \<and>
           (\<exists>r. map_of reported' key = Some r \<and> report_time r = 0 \<and> slow_report_time r = 0) \<and>
           map_of reported' (ADSB_ICAO, address aircraft) = Some adsb"
proof -
  obtain led0 r where li: "ledger_index reported key = (led0, r)"
    by (cases "ledger_index reported key")
  have ne: "(ADSB_ICAO, address aircraft) \<noteq> key"
    using k by simp
  have "map_of led0 (ADSB_ICAO, address aircraft) = Some adsb"
    using ledger_index_other [OF li ne] sib by simp
  then have ar: "adsb_reported led0 (address aircraft)"
    using pos by (simp add: adsb_reported_def)
  have lt: "\<not> last_message_time aircraft \<le> report_time r"
    using new li by (simp add: not_le)
  let ?r0 = "r\<lparr>report_time := 0, slow_report_time := 0\<rparr>"
  have res: "ReportOneAircraft key aircraft now reported = Inr (AList.update key ?r0 led0, None)"
    unfolding ReportOneAircraft_record [OF li] using lt q ar by simp
  have rec: "map_of (AList.update key ?r0 led0) key = Some ?r0"
    by (simp add: update_conv')
  have oth: "map_of (AList.update key ?r0 led0) (ADSB_ICAO, address aircraft) = Some adsb"
    using ne \<open>map_of led0 (ADSB_ICAO, address aircraft) = Some adsb\<close> by (simp add: update_conv')
  from res rec oth show ?thesis by simp
qed

theorem tisb_suppressed_when_adsb_reported_witness:
  "address_qualifier (tisb_renamed 1000400) = TISB_ICAO \<and>
   address (tisb_renamed 1000400) = 0xABCDEF \<and>
   report_time (snd (ledger_index both_sources_ledger (TISB_ICAO, 0xABCDEF)))
     < last_message_time (tisb_renamed 1000400) \<and>
   map_of both_sources_ledger (ADSB_ICAO, 0xABCDEF) = Some (snd (hd both_sources_ledger)) \<and>
   0 < report_time (snd (hd both_sources_ledger)) \<and>
   (\<exists>reported'. ReportOneAircraft (TISB_ICAO, 0xABCDEF) (tisb_renamed 1000400) 1000500
        both_sources_ledger = Inr (reported', None) \<and>
      (\<exists>r. map_of reported' (TISB_ICAO, 0xABCDEF) = Some r \<and> report_time r = 0 \<and>
           slow_report_time r = 0))"
proof -
  have a: "address (tisb_renamed 1000400) = 0xABCDEF"
    by (simp add: tisb_renamed_def empty_state_def)
  have q: "address_qualifier (tisb_renamed 1000400) = TISB_ICAO"
    by (simp add: tisb_renamed_def empty_state_def)
  have k: "(TISB_ICAO, 0xABCDEF) = (TISB_ICAO, address (tisb_renamed 1000400))"
    using a by simp
  have new: "report_time (snd (ledger_index both_sources_ledger (TISB_ICAO, 0xABCDEF)))
     < last_message_time (tisb_renamed 1000400)"
    by (simp add: ledger_index_def both_sources_ledger_def tisb_renamed_def empty_state_def)
  have sib: "map_of both_sources_ledger (ADSB_ICAO, address (tisb_renamed 1000400))
     = Some (snd (hd both_sources_ledger))"
    unfolding a by (simp add: both_sources_ledger_def)
  have pos: "0 < report_time (snd (hd both_sources_ledger))"
    by (simp add: both_sources_ledger_def)
  from tisb_suppressed_when_adsb_reported [OF q k new sib pos, of 1000500]
  show ?thesis using q a new sib pos unfolding a by blast
qed
section \<open>Evaluating twice\<close>

text \<open>
  C6. Evaluating the same aircraft state twice at the same \<open>now\<close>, with the last
  message not later than \<open>now\<close> and the key being the aircraft's own: whatever the
  first evaluation returned (in particular after an emission, which sets the report time
  to \<open>now\<close>), the second evaluation emits nothing and leaves the ledger as the first
  left it.
\<close>

theorem second_evaluation_never_emits:
  assumes k: "key = (address_qualifier aircraft, address aircraft)"
      and t: "last_message_time aircraft \<le> now"
      and first: "ReportOneAircraft key aircraft now reported = Inr (reported1, out1)"
  shows "ReportOneAircraft key aircraft now reported1 = Inr (reported1, None)"
proof -
  obtain led0 r where li: "ledger_index reported key = (led0, r)"
    by (cases "ledger_index reported key")
  note li0 = ledger_index_again [OF li]
  let ?r0 = "r\<lparr>report_time := 0, slow_report_time := 0\<rparr>"
  let ?r1 = "\<lparr>report_time = now,
              slow_report_time = (if 300000 < now - slow_report_time r then now else slow_report_time r),
              report_state = aircraft\<rparr>"
  from ReportOneAircraft_outcomes [OF li first]
  consider (same) "reported1 = led0" "out1 = None"
    | (reset) "address_qualifier aircraft = TISB_ICAO" "adsb_reported led0 (address aircraft)"
              "reported1 = AList.update key ?r0 led0"
    | (emit) "reported1 = AList.update key ?r1 led0"
    by blast
  then show ?thesis
  proof cases
    case same
    have "ReportOneAircraft key aircraft now led0 = ReportOneAircraft key aircraft now reported"
      by (simp only: ReportOneAircraft_record [OF li] ReportOneAircraft_record [OF li0])
    with first same show ?thesis by simp
  next
    case reset
    have li1: "ledger_index reported1 key = (reported1, ?r0)"
      using reset(3) by (simp add: ledger_index_update)
    have "key \<noteq> (ADSB_ICAO, address aircraft)"
      using k reset(1) by simp
    then have "adsb_reported reported1 (address aircraft)"
      using reset(2,3) by (simp add: adsb_reported_def update_conv')
    moreover have "AList.update key (?r0\<lparr>report_time := 0, slow_report_time := 0\<rparr>) reported1 = reported1"
      using reset(3) by simp
    ultimately show ?thesis
      unfolding ReportOneAircraft_record [OF li1] using reset(1) by simp
  next
    case emit
    have li1: "ledger_index reported1 key = (reported1, ?r1)"
      using emit by (simp add: ledger_index_update)
    show ?thesis
      unfolding ReportOneAircraft_record [OF li1] using t by simp
  qed
qed

theorem second_evaluation_never_emits_witness:
  "(ADSB_ICAO, 0xABCDEF) = (address_qualifier (cruise 1030500), address (cruise 1030500)) \<and>
   last_message_time (cruise 1030500) \<le> 1031000 \<and>
   emitted (ReportOneAircraft (ADSB_ICAO, 0xABCDEF) (cruise 1030500) 1031000 cruise_ledger) \<noteq> None \<and>
   (\<exists>reported1 out1.
      ReportOneAircraft (ADSB_ICAO, 0xABCDEF) (cruise 1030500) 1031000 cruise_ledger
        = Inr (reported1, out1) \<and>
      ReportOneAircraft (ADSB_ICAO, 0xABCDEF) (cruise 1030500) 1031000 reported1
        = Inr (reported1, None))"
proof -
  have k: "(ADSB_ICAO, 0xABCDEF) = (address_qualifier (cruise 1030500), address (cruise 1030500))"
    by (simp add: example_defs)
  have t: "last_message_time (cruise 1030500) \<le> 1031000"
    by (simp add: example_defs)
  have "\<exists>reported1 l.
      ReportOneAircraft (ADSB_ICAO, 0xABCDEF) (cruise 1030500) 1031000 cruise_ledger
        = Inr (reported1, Some l)"
    by (simp add: report_defs change_defs phase_defs age_defs select_defs show_defs
         example_defs field_defs)
  then obtain reported1 l where first:
      "ReportOneAircraft (ADSB_ICAO, 0xABCDEF) (cruise 1030500) 1031000 cruise_ledger
        = Inr (reported1, Some l)"
    by blast
  from second_evaluation_never_emits [OF k t first] first k t
  show ?thesis by (auto simp: emitted_def)
qed
section \<open>The rate gate for a cruising aircraft\<close>

text \<open>
  C2, as claimed: a cruising aircraft (airborne, altitude 35000, nothing changed since the
  last report, fresh data) evaluated 11000 ms after its last report emits. The code at
  such an aircraft: every premise of the claim holds, a field is selected, and the
  evaluation returns the ledger as it was, with no line.
\<close>

theorem cruise_suppressed_after_11000:
  "phase_altitude (cruise 1010500) 1011000 = Inr (Some 35000) \<and>
   phase_airground (cruise 1010500) 1011000 = Inr (Some AIRBORNE_SUBSONIC) \<and>
   detect_changes (cruise 1000000) (cruise 1010500) = Inr False \<and>
   \<not> immediate_trigger (cruise 1010500) 1000000 \<and>
   (1000000 :: u64) < last_message_time (cruise 1010500) \<and>
   select_fields (cruise 1010500) 1011000 1000000 False \<noteq> [] \<and>
   (1011000 :: u64) - 1000000 = 11000 \<and>
   ReportOneAircraft (ADSB_ICAO, 0xABCDEF) (cruise 1010500) 1011000 cruise_ledger
     = Inr (cruise_ledger, None)"
  by (simp add: report_defs change_defs phase_defs age_defs select_defs show_defs
         example_defs field_defs)

text \<open>
  C2, amended. For an aircraft whose flight phase is cruise (the air/ground hint is not
  on-ground, the altitude hint is known and at least 10000, as 35000 is), with new data,
  not suppressed by the source preference, with no change detected and no immediate
  trigger: the minimum report interval is 30000 ms. An evaluation less than 30000 ms
  after the last report (so at 9000 ms and at 11000 ms) is suppressed by the rate gate
  and leaves the ledger as it was; an evaluation at 30000 ms or more emits, unless no
  field is selected.
\<close>

theorem cruise_rate_gate:
  assumes li: "ledger_index reported0 key = (reported, r)"
      and new: "report_time r < last_message_time aircraft"
      and pref: "\<not> (address_qualifier aircraft = TISB_ICAO \<and> adsb_reported reported (address aircraft))"
      and unchanged: "detect_changes (report_state r) aircraft = Inr False"
      and no_trigger: "\<not> immediate_trigger aircraft (report_time r)"
      and alt: "phase_altitude aircraft now = Inr (Some altitude)"
      and high: "10000 \<le> altitude"
      and ag: "phase_airground aircraft now = Inr airground"
      and airborne: "airground \<noteq> Some ON_GROUND"
      and gs: "phase_groundspeed aircraft now = Inr groundspeed"
  shows "min_age (immediate_trigger aircraft (report_time r)) airground (Some altitude)
           groundspeed False = 30000 \<and>
         ReportOneAircraft key aircraft now reported0 =
           (if now - report_time r < 30000 then Inr (reported, None)
            else if select_fields aircraft now (report_time r) (300000 < now - slow_report_time r) = []
            then Inr (reported, None)
            else Inr (AList.update key
                        \<lparr>report_time = now,
                         slow_report_time =
                           (if 300000 < now - slow_report_time r then now else slow_report_time r),
                         report_state = aircraft\<rparr> reported,
                      Some (make_line aircraft now (300000 < now - slow_report_time r)
                         (select_fields aircraft now (report_time r)
                            (300000 < now - slow_report_time r)))))"
proof -
  have m: "min_age (immediate_trigger aircraft (report_time r)) airground (Some altitude)
           groundspeed False = 30000"
    using no_trigger high airborne by (simp add: age_defs)
  show ?thesis
    unfolding ReportOneAircraft_after_reads [OF li new pref unchanged alt ag gs] m
    by simp
qed

theorem cruise_rate_gate_witness:
  "ledger_index cruise_ledger (ADSB_ICAO, 0xABCDEF) = (cruise_ledger, snd (hd cruise_ledger)) \<and>
   report_time (snd (hd cruise_ledger)) < last_message_time (cruise 1008500) \<and>
   \<not> (address_qualifier (cruise 1008500) = TISB_ICAO \<and>
      adsb_reported cruise_ledger (address (cruise 1008500))) \<and>
   detect_changes (report_state (snd (hd cruise_ledger))) (cruise 1008500) = Inr False \<and>
   \<not> immediate_trigger (cruise 1008500) (report_time (snd (hd cruise_ledger))) \<and>
   phase_altitude (cruise 1008500) 1009000 = Inr (Some 35000) \<and>
   (10000 :: int) \<le> 35000 \<and>
   phase_airground (cruise 1008500) 1009000 = Inr (Some AIRBORNE_SUBSONIC) \<and>
   Some AIRBORNE_SUBSONIC \<noteq> Some ON_GROUND \<and>
   phase_groundspeed (cruise 1008500) 1009000 = Inr (Some 450) \<and>
   1009000 - report_time (snd (hd cruise_ledger)) = 9000 \<and>
   ReportOneAircraft (ADSB_ICAO, 0xABCDEF) (cruise 1008500) 1009000 cruise_ledger
     = Inr (cruise_ledger, None)"
proof -
  have li: "ledger_index cruise_ledger (ADSB_ICAO, 0xABCDEF) = (cruise_ledger, snd (hd cruise_ledger))"
    by (simp add: ledger_index_def cruise_ledger_def)
  have new: "report_time (snd (hd cruise_ledger)) < last_message_time (cruise 1008500)"
    by (simp add: example_defs)
  have pref: "\<not> (address_qualifier (cruise 1008500) = TISB_ICAO \<and>
      adsb_reported cruise_ledger (address (cruise 1008500)))"
    by (simp add: example_defs)
  have unchanged: "detect_changes (report_state (snd (hd cruise_ledger))) (cruise 1008500) = Inr False"
    by (simp add: change_defs example_defs field_defs)
  have no_trigger: "\<not> immediate_trigger (cruise 1008500) (report_time (snd (hd cruise_ledger)))"
    by (simp add: immediate_trigger_def example_defs field_defs)
  have alt: "phase_altitude (cruise 1008500) 1009000 = Inr (Some 35000)"
    by (simp add: phase_defs example_defs field_defs)
  have high: "(10000 :: int) \<le> 35000"
    by simp
  have ag: "phase_airground (cruise 1008500) 1009000 = Inr (Some AIRBORNE_SUBSONIC)"
    by (simp add: phase_defs example_defs field_defs)
  have airborne: "Some AIRBORNE_SUBSONIC \<noteq> Some ON_GROUND"
    by simp
  have gs: "phase_groundspeed (cruise 1008500) 1009000 = Inr (Some 450)"
    by (simp add: phase_defs example_defs field_defs)
  have d: "1009000 - report_time (snd (hd cruise_ledger)) = 9000"
    by (simp add: cruise_ledger_def)
  from cruise_rate_gate [OF li new pref unchanged no_trigger alt high ag airborne gs]
  have "ReportOneAircraft (ADSB_ICAO, 0xABCDEF) (cruise 1008500) 1009000 cruise_ledger
     = Inr (cruise_ledger, None)"
    unfolding d by simp
  with li new pref unchanged no_trigger alt high ag airborne gs d show ?thesis
    by blast
qed
section \<open>Immediate triggers\<close>

text \<open>A valid callsign assigned after the last report is selected.\<close>

lemma callsign_selected:
  assumes "fvalue (callsign aircraft) = Some v" and "rt < Updated (callsign aircraft)"
  shows "select_fields aircraft now rt force_slow \<noteq> []"
  using assms by (simp add: select_fields_def fast_fields_def add_aged_field_def Let_def)

text \<open>A field that satisfies the invariant and changed after \<open>rt\<close> is valid and was assigned after \<open>rt\<close>.\<close>

lemma changed_field_is_fresh:
  assumes "field_ok f" and "rt < Changed f"
  shows "(\<exists>v. fvalue f = Some v) \<and> rt < Updated f"
proof -
  from assms(2) have "Changed f \<noteq> 0"
    by (metis not_less_iff_gr_or_eq word_not_simps(1))
  with assms(1) have "Valid f" and "Changed f \<le> Updated f"
    by (auto simp: field_ok_def)
  with assms(2) show ?thesis
    by (auto simp: Valid_def)
qed

text \<open>
  C5, as claimed: a callsign change alone, with new data present, forces an emission. The
  code at a TIS-B aircraft whose callsign changed after its last report, while the ledger
  holds a reported ADS-B record of the same address: the source preference resets the
  record and returns before the triggers are looked at, and no line is written.
\<close>

theorem callsign_change_suppressed_by_source_preference:
  "report_time (snd (ledger_index both_sources_ledger (TISB_ICAO, 0xABCDEF)))
     < Changed (callsign (tisb_renamed 1000900)) \<and>
   report_time (snd (ledger_index both_sources_ledger (TISB_ICAO, 0xABCDEF)))
     < last_message_time (tisb_renamed 1000900) \<and>
   ReportOneAircraft (TISB_ICAO, 0xABCDEF) (tisb_renamed 1000900) 1001000 both_sources_ledger
     = Inr (AList.update (TISB_ICAO, 0xABCDEF)
             \<lparr>report_time = 0, slow_report_time = 0, report_state = tisb_renamed 800000\<rparr>
             both_sources_ledger, None) \<and>
   emitted (ReportOneAircraft (TISB_ICAO, 0xABCDEF) (tisb_renamed 1000900) 1001000
      both_sources_ledger) = None"
  by (simp add: report_defs emitted_def example_defs field_defs)

text \<open>
  C5, amended. Once an evaluation has new data, is not suppressed by the source preference
  and its reads succeed: if an immediate-trigger field changed after the last report, the
  minimum report interval is 0, so the rate gate does not suppress, whatever
  \<open>now - report_time\<close> and the flight-phase hints are, and a line is emitted unless no
  field is selected. In particular, if the callsign changed after the last report (and
  the callsign field satisfies the invariant of an aged field), a line is emitted.
\<close>

theorem immediate_trigger_overrides_rate_gate:
  assumes li: "ledger_index reported0 key = (reported, r)"
      and new: "report_time r < last_message_time aircraft"
      and pref: "\<not> (address_qualifier aircraft = TISB_ICAO \<and> adsb_reported reported (address aircraft))"
      and ch: "detect_changes (report_state r) aircraft = Inr changed"
      and alt: "phase_altitude aircraft now = Inr altitude"
      and ag: "phase_airground aircraft now = Inr airground"
      and gs: "phase_groundspeed aircraft now = Inr groundspeed"
      and trig: "immediate_trigger aircraft (report_time r)"
  shows "min_age (immediate_trigger aircraft (report_time r)) airground altitude groundspeed changed = 0 \<and>
         ReportOneAircraft key aircraft now reported0 =
           (if select_fields aircraft now (report_time r) (300000 < now - slow_report_time r) = []
            then Inr (reported, None)
            else Inr (AList.update key
                        \<lparr>report_time = now,
                         slow_report_time =
                           (if 300000 < now - slow_report_time r then now else slow_report_time r),
                         report_state = aircraft\<rparr> reported,
                      Some (make_line aircraft now (300000 < now - slow_report_time r)
                         (select_fields aircraft now (report_time r)
                            (300000 < now - slow_report_time r))))) \<and>
         (report_time r < Changed (callsign aircraft) \<and> field_ok (callsign aircraft) \<longrightarrow>
            emitted (ReportOneAircraft key aircraft now reported0) \<noteq> None)"
proof -
  have m: "min_age (immediate_trigger aircraft (report_time r)) airground altitude groundspeed changed = 0"
    using trig by (simp add: min_age_def)
  have res: "ReportOneAircraft key aircraft now reported0 =
           (if select_fields aircraft now (report_time r) (300000 < now - slow_report_time r) = []
            then Inr (reported, None)
            else Inr (AList.update key
                        \<lparr>report_time = now,
                         slow_report_time =
                           (if 300000 < now - slow_report_time r then now else slow_report_time r),
                         report_state = aircraft\<rparr> reported,
                      Some (make_line aircraft now (300000 < now - slow_report_time r)
                         (select_fields aircraft now (report_time r)
                            (300000 < now - slow_report_time r)))))"
    unfolding ReportOneAircraft_after_reads [OF li new pref ch alt ag gs] m by simp
  have "emitted (ReportOneAircraft key aircraft now reported0) \<noteq> None"
    if "report_time r < Changed (callsign aircraft)" and "field_ok (callsign aircraft)"
  proof -
    from changed_field_is_fresh [OF that(2) that(1)]
    obtain v where "fvalue (callsign aircraft) = Some v"
      and "report_time r < Updated (callsign aircraft)"
      by blast
    then have "select_fields aircraft now (report_time r) (300000 < now - slow_report_time r) \<noteq> []"
      by (rule callsign_selected)
    then show ?thesis
      unfolding res by (simp add: emitted_def)
  qed
  with m res show ?thesis by blast
qed

theorem immediate_trigger_overrides_rate_gate_witness:
  "ledger_index cruise_ledger (ADSB_ICAO, 0xABCDEF) = (cruise_ledger, snd (hd cruise_ledger)) \<and>
   report_time (snd (hd cruise_ledger)) < last_message_time (cruise_renamed 1000400) \<and>
   \<not> (address_qualifier (cruise_renamed 1000400) = TISB_ICAO \<and>
      adsb_reported cruise_ledger (address (cruise_renamed 1000400))) \<and>
   detect_changes (report_state (snd (hd cruise_ledger))) (cruise_renamed 1000400) = Inr False \<and>
   phase_altitude (cruise_renamed 1000400) 1000500 = Inr (Some 35000) \<and>
   phase_airground (cruise_renamed 1000400) 1000500 = Inr (Some AIRBORNE_SUBSONIC) \<and>
   phase_groundspeed (cruise_renamed 1000400) 1000500 = Inr (Some 450) \<and>
   immediate_trigger (cruise_renamed 1000400) (report_time (snd (hd cruise_ledger))) \<and>
   report_time (snd (hd cruise_ledger)) < Changed (callsign (cruise_renamed 1000400)) \<and>
   field_ok (callsign (cruise_renamed 1000400)) \<and>
   1000500 - report_time (snd (hd cruise_ledger)) = 500 \<and>
   emitted (ReportOneAircraft (ADSB_ICAO, 0xABCDEF) (cruise_renamed 1000400) 1000500 cruise_ledger)
     \<noteq> None"
proof -
  have li: "ledger_index cruise_ledger (ADSB_ICAO, 0xABCDEF) = (cruise_ledger, snd (hd cruise_ledger))"
    by (simp add: ledger_index_def cruise_ledger_def)
  have new: "report_time (snd (hd cruise_ledger)) < last_message_time (cruise_renamed 1000400)"
    by (simp add: example_defs)
  have pref: "\<not> (address_qualifier (cruise_renamed 1000400) = TISB_ICAO \<and>
      adsb_reported cruise_ledger (address (cruise_renamed 1000400)))"
    by (simp add: example_defs)
  have ch: "detect_changes (report_state (snd (hd cruise_ledger))) (cruise_renamed 1000400) = Inr False"
    by (simp add: change_defs example_defs field_defs)
  have alt: "phase_altitude (cruise_renamed 1000400) 1000500 = Inr (Some 35000)"
    by (simp add: phase_defs example_defs field_defs)
  have ag: "phase_airground (cruise_renamed 1000400) 1000500 = Inr (Some AIRBORNE_SUBSONIC)"
    by (simp add: phase_defs example_defs field_defs)
  have gs: "phase_groundspeed (cruise_renamed 1000400) 1000500 = Inr (Some 450)"
    by (simp add: phase_defs example_defs field_defs)
  have trig: "immediate_trigger (cruise_renamed 1000400) (report_time (snd (hd cruise_ledger)))"
    by (simp add: immediate_trigger_def example_defs field_defs)
  have cs: "report_time (snd (hd cruise_ledger)) < Changed (callsign (cruise_renamed 1000400))"
    by (simp add: example_defs field_defs)
  have ok: "field_ok (callsign (cruise_renamed 1000400))"
    by (simp add: field_ok_def example_defs field_defs)
  have d: "1000500 - report_time (snd (hd cruise_ledger)) = 500"
    by (simp add: cruise_ledger_def)
  from immediate_trigger_overrides_rate_gate [OF li new pref ch alt ag gs trig] cs ok
  have "emitted (ReportOneAircraft (ADSB_ICAO, 0xABCDEF) (cruise_renamed 1000400) 1000500
      cruise_ledger) \<noteq> None"
    by blast
  with li new pref ch alt ag gs trig cs ok d show ?thesis
    by blast
qed
section \<open>Empty reports\<close>

text \<open>
  An evaluation that returns without a line leaves the key's record as it was, or, on the
  source-preference path, with its two timestamps reset; the report state is replaced by
  an emission only.
\<close>

lemma record_after_silent_return:
  assumes "ledger_index reported0 key = (reported, r)"
      and "ReportOneAircraft key aircraft now reported0 = Inr (reported1, None)"
  shows "map_of reported1 key = Some r \<or>
         map_of reported1 key = Some (r\<lparr>report_time := 0, slow_report_time := 0\<rparr>)"
  using ReportOneAircraft_outcomes [OF assms] ledger_index_lookup [OF assms(1)]
  by (auto simp: update_conv')

text \<open>
  C8. When the no-new-data gate, the source preference and the rate gate are passed (and
  the reads before them succeed) but the field selection is empty, the evaluation writes
  no line, and the ledger is the one the lookup of the key gave: the key's record, with
  its report time, slow report time and report state, is as it was (a record created by
  this evaluation stays the zeroed record).
\<close>

theorem empty_selection_writes_nothing:
  assumes li: "ledger_index reported0 key = (reported, r)"
      and new: "report_time r < last_message_time aircraft"
      and pref: "\<not> (address_qualifier aircraft = TISB_ICAO \<and> adsb_reported reported (address aircraft))"
      and ch: "detect_changes (report_state r) aircraft = Inr changed"
      and alt: "phase_altitude aircraft now = Inr altitude"
      and ag: "phase_airground aircraft now = Inr airground"
      and gs: "phase_groundspeed aircraft now = Inr groundspeed"
      and rate: "\<not> now - report_time r
                  < min_age (immediate_trigger aircraft (report_time r)) airground altitude groundspeed changed"
      and empty: "select_fields aircraft now (report_time r) (300000 < now - slow_report_time r) = []"
  shows "ReportOneAircraft key aircraft now reported0 = Inr (reported, None) \<and>
         map_of reported key = Some r \<and>
         reported = (if map_of reported0 key = None then reported0 @ [(key, new_record)] else reported0)"
proof -
  have "ReportOneAircraft key aircraft now reported0 = Inr (reported, None)"
    unfolding ReportOneAircraft_after_reads [OF li new pref ch alt ag gs]
    using rate empty by simp
  moreover have "map_of reported key = Some r"
    using li by (rule ledger_index_lookup)
  moreover have "reported = (if map_of reported0 key = None then reported0 @ [(key, new_record)] else reported0)"
    using li by (auto simp: ledger_index_def split: option.splits)
  ultimately show ?thesis by blast
qed

theorem empty_selection_writes_nothing_witness:
  "ledger_index quiet_ledger (ADSB_ICAO, 0xABCDEF) = (quiet_ledger, snd (hd quiet_ledger)) \<and>
   report_time (snd (hd quiet_ledger)) < last_message_time quiet \<and>
   \<not> (address_qualifier quiet = TISB_ICAO \<and> adsb_reported quiet_ledger (address quiet)) \<and>
   detect_changes (report_state (snd (hd quiet_ledger))) quiet = Inr False \<and>
   phase_altitude quiet 50000 = Inr None \<and>
   phase_airground quiet 50000 = Inr None \<and>
   phase_groundspeed quiet 50000 = Inr None \<and>
   \<not> 50000 - report_time (snd (hd quiet_ledger))
       < min_age (immediate_trigger quiet (report_time (snd (hd quiet_ledger)))) None None None False \<and>
   select_fields quiet 50000 (report_time (snd (hd quiet_ledger)))
      (300000 < 50000 - slow_report_time (snd (hd quiet_ledger))) = [] \<and>
   ReportOneAircraft (ADSB_ICAO, 0xABCDEF) quiet 50000 quiet_ledger = Inr (quiet_ledger, None) \<and>
   map_of quiet_ledger (ADSB_ICAO, 0xABCDEF) = Some (snd (hd quiet_ledger))"
proof -
  have li: "ledger_index quiet_ledger (ADSB_ICAO, 0xABCDEF) = (quiet_ledger, snd (hd quiet_ledger))"
    by (simp add: ledger_index_def quiet_ledger_def)
  have new: "report_time (snd (hd quiet_ledger)) < last_message_time quiet"
    by (simp add: example_defs)
  have pref: "\<not> (address_qualifier quiet = TISB_ICAO \<and> adsb_reported quiet_ledger (address quiet))"
    by (simp add: example_defs)
  have ch: "detect_changes (report_state (snd (hd quiet_ledger))) quiet = Inr False"
    by (simp add: change_defs example_defs field_defs)
  have alt: "phase_altitude quiet 50000 = Inr None"
    by (simp add: phase_defs example_defs field_defs)
  have ag: "phase_airground quiet 50000 = Inr None"
    by (simp add: phase_defs example_defs field_defs)
  have gs: "phase_groundspeed quiet 50000 = Inr None"
    by (simp add: phase_defs example_defs field_defs)
  have rate: "\<not> 50000 - report_time (snd (hd quiet_ledger))
       < min_age (immediate_trigger quiet (report_time (snd (hd quiet_ledger)))) None None None False"
    by (simp add: age_defs immediate_trigger_def example_defs field_defs)
  have empty: "select_fields quiet 50000 (report_time (snd (hd quiet_ledger)))
      (300000 < 50000 - slow_report_time (snd (hd quiet_ledger))) = []"
    by (simp add: select_defs example_defs field_defs)
  from empty_selection_writes_nothing [OF li new pref ch alt ag gs rate empty]
  have "ReportOneAircraft (ADSB_ICAO, 0xABCDEF) quiet 50000 quiet_ledger = Inr (quiet_ledger, None) \<and>
        map_of quiet_ledger (ADSB_ICAO, 0xABCDEF) = Some (snd (hd quiet_ledger))"
    by blast
  with li new pref ch alt ag gs rate empty show ?thesis
    by blast
qed
section \<open>The full refresh\<close>

text \<open>
  The entries of the selection under each of the seven slow keys: the field of that key
  is valid, \<open>force_slow\<close> holds or the field changed after the last report, and the value
  is the field's stringized value.
\<close>

lemma slow_field_entries:
  "((''uat_version'', s) \<in> set (select_fields a now rt fs)) =
     (\<exists>v. fvalue (mops_version a) = Some v \<and> (fs \<or> rt < Changed (mops_version a)) \<and>
          s = show_u32 v)"
  "((''category'', s) \<in> set (select_fields a now rt fs)) =
     (\<exists>v. fvalue (emitter_category a) = Some v \<and> (fs \<or> rt < Changed (emitter_category a)) \<and>
          s = category_str v)"
  "((''nac_p'', s) \<in> set (select_fields a now rt fs)) =
     (\<exists>v. fvalue (nac_p a) = Some v \<and> (fs \<or> rt < Changed (nac_p a)) \<and>
          s = show_u32 v @ aged_suffix (nac_p a) now (value_map (address_qualifier a) source_map ''?''))"
  "((''nac_v'', s) \<in> set (select_fields a now rt fs)) =
     (\<exists>v. fvalue (nac_v a) = Some v \<and> (fs \<or> rt < Changed (nac_v a)) \<and>
          s = show_u32 v @ aged_suffix (nac_v a) now (value_map (address_qualifier a) source_map ''?''))"
  "((''sil'', s) \<in> set (select_fields a now rt fs)) =
     (\<exists>v. fvalue (sil a) = Some v \<and> (fs \<or> rt < Changed (sil a)) \<and>
          s = show_u32 v @ aged_suffix (sil a) now (value_map (address_qualifier a) source_map ''?''))"
  "((''sil_type'', s) \<in> set (select_fields a now rt fs)) =
     (\<exists>v. fvalue (sil_supplement a) = Some v \<and> (fs \<or> rt < Changed (sil_supplement a)) \<and>
          s = value_map v supplement_map ''unknown'' @
              aged_suffix (sil_supplement a) now (value_map (address_qualifier a) source_map ''?''))"
  "((''nic_baro'', s) \<in> set (select_fields a now rt fs)) =
     (\<exists>v. fvalue (nic_baro a) = Some v \<and> (fs \<or> rt < Changed (nic_baro a)) \<and>
          s = show_u32 v @ aged_suffix (nic_baro a) now (value_map (address_qualifier a) source_map ''?''))"
  by (simp_all add: selection_defs entry_mem)

text \<open>
  C7. For an evaluation that emits a line, with \<open>force_slow\<close> being
  \<open>300000 < now - slow_report_time\<close> of the key's record (in 64-bit arithmetic): the
  line has an \<open>addrtype\<close> segment exactly when \<open>force_slow\<close> holds or the qualifier is
  neither \<open>ADSB_ICAO\<close> nor \<open>TISB_ICAO\<close>. When \<open>force_slow\<close> holds, the segment is there
  with the qualifier's name, also for the two ICAO qualifiers, and each of the seven slow
  fields (MOPS version, emitter category, NACp, NACv, SIL, SIL supplement, NIC-baro) that
  is valid is in the line under its key with its stringized value (followed by the age
  and source for the last five), changed since the last report or not. In any emitted
  line, the entries under a slow key are exactly that: the field is valid, \<open>force_slow\<close>
  holds or the field changed after the last report, and the value is the field's.
\<close>

theorem force_slow_refresh:
  assumes li: "ledger_index reported0 key = (reported, r)"
      and em: "ReportOneAircraft key aircraft now reported0 = Inr (reported1, Some l)"
  shows "((line_addrtype l \<noteq> None) =
            (300000 < now - slow_report_time r \<or>
             \<not> (address_qualifier aircraft = ADSB_ICAO \<or> address_qualifier aircraft = TISB_ICAO))) \<and>
         (300000 < now - slow_report_time r \<longrightarrow>
            line_addrtype l = Some (value_map (address_qualifier aircraft) qualifier_map ''unknown'') \<and>
            (\<forall>v. fvalue (mops_version aircraft) = Some v \<longrightarrow>
               (''uat_version'', show_u32 v) \<in> set (line_fields l)) \<and>
            (\<forall>v. fvalue (emitter_category aircraft) = Some v \<longrightarrow>
               (''category'', category_str v) \<in> set (line_fields l)) \<and>
            (\<forall>v. fvalue (nac_p aircraft) = Some v \<longrightarrow>
               (''nac_p'', show_u32 v @ aged_suffix (nac_p aircraft) now
                  (value_map (address_qualifier aircraft) source_map ''?'')) \<in> set (line_fields l)) \<and>
            (\<forall>v. fvalue (nac_v aircraft) = Some v \<longrightarrow>
               (''nac_v'', show_u32 v @ aged_suffix (nac_v aircraft) now
                  (value_map (address_qualifier aircraft) source_map ''?'')) \<in> set (line_fields l)) \<and>
            (\<forall>v. fvalue (sil aircraft) = Some v \<longrightarrow>
               (''sil'', show_u32 v @ aged_suffix (sil aircraft) now
                  (value_map (address_qualifier aircraft) source_map ''?'')) \<in> set (line_fields l)) \<and>
            (\<forall>v. fvalue (sil_supplement aircraft) = Some v \<longrightarrow>
               (''sil_type'', value_map v supplement_map ''unknown'' @
                  aged_suffix (sil_supplement aircraft) now
                    (value_map (address_qualifier aircraft) source_map ''?'')) \<in> set (line_fields l)) \<and>
            (\<forall>v. fvalue (nic_baro aircraft) = Some v \<longrightarrow>
               (''nic_baro'', show_u32 v @ aged_suffix (nic_baro aircraft) now
                  (value_map (address_qualifier aircraft) source_map ''?'')) \<in> set (line_fields l))) \<and>
         (\<forall>s. ((''uat_version'', s) \<in> set (line_fields l)) =
            (\<exists>v. fvalue (mops_version aircraft) = Some v \<and>
                 (300000 < now - slow_report_time r \<or> report_time r < Changed (mops_version aircraft)) \<and>
                 s = show_u32 v)) \<and>
         (\<forall>s. ((''category'', s) \<in> set (line_fields l)) =
            (\<exists>v. fvalue (emitter_category aircraft) = Some v \<and>
                 (300000 < now - slow_report_time r \<or> report_time r < Changed (emitter_category aircraft)) \<and>
                 s = category_str v)) \<and>
         (\<forall>s. ((''nac_p'', s) \<in> set (line_fields l)) =
            (\<exists>v. fvalue (nac_p aircraft) = Some v \<and>
                 (300000 < now - slow_report_time r \<or> report_time r < Changed (nac_p aircraft)) \<and>
                 s = show_u32 v @ aged_suffix (nac_p aircraft) now
                       (value_map (address_qualifier aircraft) source_map ''?''))) \<and>
         (\<forall>s. ((''nac_v'', s) \<in> set (line_fields l)) =
            (\<exists>v. fvalue (nac_v aircraft) = Some v \<and>
                 (300000 < now - slow_report_time r \<or> report_time r < Changed (nac_v aircraft)) \<and>
                 s = show_u32 v @ aged_suffix (nac_v aircraft) now
                       (value_map (address_qualifier aircraft) source_map ''?''))) \<and>
         (\<forall>s. ((''sil'', s) \<in> set (line_fields l)) =
            (\<exists>v. fvalue (sil aircraft) = Some v \<and>
                 (300000 < now - slow_report_time r \<or> report_time r < Changed (sil aircraft)) \<and>
                 s = show_u32 v @ aged_suffix (sil aircraft) now
                       (value_map (address_qualifier aircraft) source_map ''?''))) \<and>
         (\<forall>s. ((''sil_type'', s) \<in> set (line_fields l)) =
            (\<exists>v. fvalue (sil_supplement aircraft) = Some v \<and>
                 (300000 < now - slow_report_time r \<or> report_time r < Changed (sil_supplement aircraft)) \<and>
                 s = value_map v supplement_map ''unknown'' @
                     aged_suffix (sil_supplement aircraft) now
                       (value_map (address_qualifier aircraft) source_map ''?''))) \<and>
         (\<forall>s. ((''nic_baro'', s) \<in> set (line_fields l)) =
            (\<exists>v. fvalue (nic_baro aircraft) = Some v \<and>
                 (300000 < now - slow_report_time r \<or> report_time r < Changed (nic_baro aircraft)) \<and>
                 s = show_u32 v @ aged_suffix (nic_baro aircraft) now
                       (value_map (address_qualifier aircraft) source_map ''?'')))"
proof -
  let ?fs = "300000 < now - slow_report_time r"
  note l = emitted_line [OF li em]
  have a: "(line_addrtype l \<noteq> None) =
            (?fs \<or> \<not> (address_qualifier aircraft = ADSB_ICAO \<or> address_qualifier aircraft = TISB_ICAO))"
    unfolding l by (simp add: make_line_def Let_def)
  have b: "line_addrtype l = Some (value_map (address_qualifier aircraft) qualifier_map ''unknown'')"
    if "?fs"
    unfolding l using that by (simp add: make_line_def Let_def)
  have f: "line_fields l = select_fields aircraft now (report_time r) ?fs"
    unfolding l by (simp add: make_line_def Let_def)
  show ?thesis
    unfolding f slow_field_entries using a b by simp
qed

theorem force_slow_refresh_witness:
  "ledger_index cruise_ledger (ADSB_ICAO, 0xABCDEF) = (cruise_ledger, snd (hd cruise_ledger)) \<and>
   300000 < 1301000 - slow_report_time (snd (hd cruise_ledger)) \<and>
   fvalue (emitter_category (cruise 1300500)) = Some 3 \<and>
   Changed (emitter_category (cruise 1300500)) < report_time (snd (hd cruise_ledger)) \<and>
   address_qualifier (cruise 1300500) = ADSB_ICAO \<and>
   (\<exists>reported1 l.
      ReportOneAircraft (ADSB_ICAO, 0xABCDEF) (cruise 1300500) 1301000 cruise_ledger
        = Inr (reported1, Some l) \<and>
      line_addrtype l = Some ''adsb_icao'' \<and>
      (''category'', ''A3'') \<in> set (line_fields l) \<and>
      (\<forall>s. (''category'', s) \<in> set (line_fields l) \<longrightarrow> s = ''A3'') \<and>
      (\<forall>s. (''nac_p'', s) \<notin> set (line_fields l)))"
proof -
  have li: "ledger_index cruise_ledger (ADSB_ICAO, 0xABCDEF) = (cruise_ledger, snd (hd cruise_ledger))"
    by (simp add: ledger_index_def cruise_ledger_def)
  have fs: "300000 < 1301000 - slow_report_time (snd (hd cruise_ledger))"
    by (simp add: cruise_ledger_def)
  have v: "fvalue (emitter_category (cruise 1300500)) = Some 3"
    by (simp add: example_defs field_defs)
  have n: "fvalue (nac_p (cruise 1300500)) = None"
    by (simp add: example_defs field_defs)
  have old: "Changed (emitter_category (cruise 1300500)) < report_time (snd (hd cruise_ledger))"
    by (simp add: example_defs field_defs)
  have q: "address_qualifier (cruise 1300500) = ADSB_ICAO"
    by (simp add: example_defs)
  have c3: "category_str 3 = ''A3''"
    by (simp add: show_defs)
  have "\<exists>reported1 l.
      ReportOneAircraft (ADSB_ICAO, 0xABCDEF) (cruise 1300500) 1301000 cruise_ledger
        = Inr (reported1, Some l)"
    by (simp add: report_defs change_defs phase_defs age_defs select_defs show_defs
         example_defs field_defs)
  then obtain reported1 l where em:
      "ReportOneAircraft (ADSB_ICAO, 0xABCDEF) (cruise 1300500) 1301000 cruise_ledger
        = Inr (reported1, Some l)"
    by blast
  note r = force_slow_refresh [OF li em]
  note forced = r [THEN conjunct2, THEN conjunct1, THEN mp, OF fs]
  have "line_addrtype l =
      Some (value_map (address_qualifier (cruise 1300500)) qualifier_map ''unknown'')"
    using forced by (rule conjunct1)
  then have t: "line_addrtype l = Some ''adsb_icao''"
    unfolding q by (simp add: value_map_def qualifier_map_def)
  have c: "(''category'', ''A3'') \<in> set (line_fields l)"
    using forced [THEN conjunct2, THEN conjunct2, THEN conjunct1, THEN spec, THEN mp, OF v]
    unfolding c3 .
  have u: "\<forall>s. (''category'', s) \<in> set (line_fields l) \<longrightarrow> s = ''A3''"
    using r [THEN conjunct2, THEN conjunct2, THEN conjunct2, THEN conjunct1]
    unfolding v using c3 by simp
  have w: "\<forall>s. (''nac_p'', s) \<notin> set (line_fields l)"
    using r [THEN conjunct2, THEN conjunct2, THEN conjunct2, THEN conjunct2, THEN conjunct1]
    unfolding n by simp
  from em t c u w have "\<exists>reported1 l.
      ReportOneAircraft (ADSB_ICAO, 0xABCDEF) (cruise 1300500) 1301000 cruise_ledger
        = Inr (reported1, Some l) \<and>
      line_addrtype l = Some ''adsb_icao'' \<and>
      (''category'', ''A3'') \<in> set (line_fields l) \<and>
      (\<forall>s. (''category'', s) \<in> set (line_fields l) \<longrightarrow> s = ''A3'') \<and>
      (\<forall>s. (''nac_p'', s) \<notin> set (line_fields l))"
    by blast
  with li fs v old q show ?thesis
    by (intro conjI)
qed

text \<open>
  The text of such a full refresh: the cruising aircraft, 301 seconds after its last full
  report. The category has not changed since then and is written all the same.
\<close>

lemma rendered_full_refresh:
  "map_option render_line
     (emitted (ReportOneAircraft (ADSB_ICAO, 0xABCDEF) (cruise 1300500) 1301000 cruise_ledger)) =
   Some (''_v'' @ tab @ ''4U'' @ tab @ ''clock'' @ tab @ ''1301'' @ tab @
         ''hexid'' @ tab @ ''ABCDEF'' @ tab @ ''addrtype'' @ tab @ ''adsb_icao'' @ tab @
         ''category'' @ tab @ ''A3'' @ tab @ ''airGround'' @ tab @ ''A+ 0 A'' @ tab @
         ''alt'' @ tab @ ''35000 0 A'' @ tab @ ''speed'' @ tab @ ''450 0 A'' @ [CHR 0x0A])"
  by (simp add: report_defs change_defs phase_defs age_defs select_defs show_defs
       example_defs field_defs emitted_def render_line_def TSV_VERSION_def tab_def)
section \<open>The air/ground field\<close>

text \<open>Which entries of the selection carry the key \<open>airGround\<close>.\<close>

lemma add_slow_field_key:
  "(k', s) \<in> set (add_slow_field rt fs k f stringize) \<Longrightarrow> k' = k"
  by (auto simp: add_slow_field_def split: option.splits if_splits)

lemma add_slow_aged_field_key:
  "(k', s) \<in> set (add_slow_aged_field rt fs now source k f stringize) \<Longrightarrow> k' = k"
  by (auto simp: add_slow_aged_field_def split: option.splits if_splits)

lemma airGround_not_slow: "(''airGround'', s) \<notin> set (slow_fields a now rt fs source)"
  unfolding slow_fields_def set_append Un_iff
  by (auto dest: add_slow_field_key add_slow_aged_field_key)

lemma airGround_entry:
  assumes "(''airGround'', s) \<in> set (select_fields a now rt fs)"
  shows "\<exists>v. fvalue (airground_state a) = Some v \<and>
             s = value_map v airground_map ''?'' @
                 aged_suffix (airground_state a) now (value_map (address_qualifier a) source_map ''?'')"
proof -
  from assms have "(''airGround'', s) \<in>
      set (fast_fields a now rt (value_map (address_qualifier a) source_map ''?''))"
    by (simp add: select_fields_def Let_def airGround_not_slow)
  then show ?thesis
    by (auto simp: fast_fields_def add_aged_field_mem)
qed

lemma airground_string:
  "value_map v airground_map ''?'' =
     (if v = AIRBORNE_SUBSONIC \<or> v = AIRBORNE_SUPERSONIC \<or> v = ON_GROUND then ''A+'' else ''?'')"
  by (cases v) (simp_all add: value_map_def airground_map_def)

text \<open>
  C10. Whenever an emitted line has an \<open>airGround\<close> field, the air/ground state is valid
  and the field's value is \<open>A+\<close> for each of the states \<open>AIRBORNE_SUBSONIC\<close>,
  \<open>AIRBORNE_SUPERSONIC\<close> and \<open>ON_GROUND\<close>, and \<open>?\<close> for any other state, followed by the
  age and source suffix that every fast field carries: the value does not tell an
  aircraft on the ground from an airborne one.
\<close>

theorem airGround_value_is_A_plus:
  assumes em: "ReportOneAircraft key aircraft now reported0 = Inr (reported1, Some l)"
      and mem: "(''airGround'', s) \<in> set (line_fields l)"
  shows "\<exists>v. fvalue (airground_state aircraft) = Some v \<and>
             s = (if v = AIRBORNE_SUBSONIC \<or> v = AIRBORNE_SUPERSONIC \<or> v = ON_GROUND
                  then ''A+'' else ''?'') @
                 aged_suffix (airground_state aircraft) now
                   (value_map (address_qualifier aircraft) source_map ''?'')"
proof -
  obtain reported r where li: "ledger_index reported0 key = (reported, r)"
    by (cases "ledger_index reported0 key")
  have "line_fields l =
      select_fields aircraft now (report_time r) (300000 < now - slow_report_time r)"
    unfolding emitted_line [OF li em] by (simp add: make_line_def Let_def)
  with mem have "(''airGround'', s) \<in>
      set (select_fields aircraft now (report_time r) (300000 < now - slow_report_time r))"
    by simp
  from airGround_entry [OF this] show ?thesis
    by (simp add: airground_string)
qed

theorem airGround_value_is_A_plus_witness:
  "fvalue (airground_state (taxiing 2000)) = Some ON_GROUND \<and>
   (\<exists>reported1 l.
      ReportOneAircraft (ADSB_ICAO, 0xABCDEF) (taxiing 2000) 2500 [] = Inr (reported1, Some l) \<and>
      (''airGround'', ''A+ 0 A'') \<in> set (line_fields l))"
proof -
  have v: "fvalue (airground_state (taxiing 2000)) = Some ON_GROUND"
    by (simp add: example_defs field_defs)
  have "\<exists>reported1 l.
      ReportOneAircraft (ADSB_ICAO, 0xABCDEF) (taxiing 2000) 2500 [] = Inr (reported1, Some l) \<and>
      (''airGround'', ''A+ 0 A'') \<in> set (line_fields l)"
    by (simp add: report_defs change_defs phase_defs age_defs select_defs show_defs
         example_defs field_defs)
  then obtain reported1 l where
    em: "ReportOneAircraft (ADSB_ICAO, 0xABCDEF) (taxiing 2000) 2500 [] = Inr (reported1, Some l)"
    and mem: "(''airGround'', ''A+ 0 A'') \<in> set (line_fields l)"
    by blast
  from airGround_value_is_A_plus [OF em mem] v em mem show ?thesis
    by blast
qed

end
